theory Spec2Isabelle
  imports Main
begin

section \<open>The synchronization ledger (src/models/syncedProduct.model.js)\<close>

text \<open>
  A ledger entry is one document of the \<open>SyncedProduct\<close> collection. Only the
  fields that the modelled operations read or write are kept. Dates are milliseconds
  since the epoch (\<open>int\<close>); a field that may be absent or \<open>null\<close> is an
  \<open>option\<close>. The schema sets \<open>timestamps: true\<close>, so every update operation of
  Mongoose also writes \<open>updatedAt\<close>.

  The collection is a list of documents in the order in which the store scans them
  (\<open>findOneAndUpdate\<close> takes the first match, \<open>$push\<close> collects in that order).
\<close>

datatype processing_status = Idle | Processing | Completed | Failed

datatype sold_from = Shopify | Bunjang | Both

datatype shopify_status = ACTIVE | DRAFT | ARCHIVED | SOLD_OUT

record synced_product =
  doc_id :: nat
  bunjangPid :: string
  shopifyGid :: "string option"
  shopifyStatus :: "shopify_status option"
  bunjangQuantity :: int
  lastInventorySyncAt :: "int option"
  syncErrorMessage :: "string option"
  processingStatus :: processing_status
  processingStartedAt :: "int option"
  processingJobId :: "string option"
  processingLockExpiry :: "int option"
  soldFrom :: "sold_from option"
  soldAt :: "int option"
  shopifySoldAt :: "int option"
  bunjangSoldAt :: "int option"
  pendingBunjangOrder :: bool
  bunjangOrderIds :: "string list"
  createdAt :: int
  updatedAt :: int

type_synonym ledger = "synced_product list"

text \<open>\<open>isLocked\<close> (lines 144-148), with the clock reading passed in.\<close>

definition isLocked :: "int \<Rightarrow> synced_product \<Rightarrow> bool" where
  "isLocked now d =
     (if processingStatus d \<noteq> Processing then False
      else (case processingLockExpiry d of
              None \<Rightarrow> False
            | Some expiry \<Rightarrow> now < expiry))"

text \<open>
  The store's primitives. \<open>findOneAndUpdate\<close> with \<open>{new: true}\<close> updates the first
  document the filter matches and returns the updated document, or \<open>null\<close> and no
  change when none matches. \<open>updateMany\<close> updates every match. A comparison
  \<open>$lt\<close> against a date never matches an absent or \<open>null\<close> field.
\<close>

fun findOneAndUpdate ::
  "(synced_product \<Rightarrow> bool) \<Rightarrow> (synced_product \<Rightarrow> synced_product) \<Rightarrow> ledger
     \<Rightarrow> synced_product option \<times> ledger" where
  "findOneAndUpdate flt upd [] = (None, [])"
| "findOneAndUpdate flt upd (d # ds) =
     (if flt d then (Some (upd d), upd d # ds)
      else (case findOneAndUpdate flt upd ds of (r, ds') \<Rightarrow> (r, d # ds')))"

definition updateMany ::
  "(synced_product \<Rightarrow> bool) \<Rightarrow> (synced_product \<Rightarrow> synced_product) \<Rightarrow> ledger \<Rightarrow> ledger" where
  "updateMany flt upd ds = map (\<lambda>d. if flt d then upd d else d) ds"

definition lt_date :: "int option \<Rightarrow> int \<Rightarrow> bool" where
  "lt_date field bound = (case field of None \<Rightarrow> False | Some t \<Rightarrow> t < bound)"

text \<open>
  \<open>acquireLock\<close> (lines 160-183). The filter and the \<open>$set\<close> are one
  \<open>findOneAndUpdate\<close>; the clock readings of the call are taken as one instant
  \<open>now\<close>.
\<close>

definition acquireLock_filter :: "string \<Rightarrow> int \<Rightarrow> synced_product \<Rightarrow> bool" where
  "acquireLock_filter pid now d =
     (bunjangPid d = pid \<and>
      (processingStatus d \<noteq> Processing \<or> lt_date (processingLockExpiry d) now))"

definition acquireLock_set :: "string \<Rightarrow> int \<Rightarrow> int \<Rightarrow> synced_product \<Rightarrow> synced_product" where
  "acquireLock_set jobId lockDurationMs now d =
     d\<lparr>processingStatus := Processing,
       processingStartedAt := Some now,
       processingJobId := Some jobId,
       processingLockExpiry := Some (now + lockDurationMs),
       updatedAt := now\<rparr>"

definition acquireLock ::
  "string \<Rightarrow> string \<Rightarrow> int \<Rightarrow> int \<Rightarrow> ledger \<Rightarrow> synced_product option \<times> ledger" where
  "acquireLock pid jobId lockDurationMs now db =
     findOneAndUpdate (acquireLock_filter pid now) (acquireLock_set jobId lockDurationMs now) db"

text \<open>
  The sweeper: the static \<open>cleanupStuckProcessing\<close> of the model (lines 221-236),
  which the scheduled job calls, and the job file's own function of the same name
  (cleanupJob.js, lines 15-31), which fixes the timeout at 30 minutes and returns
  nothing but logs \<open>modifiedCount\<close>.
\<close>

definition stuck_filter :: "int \<Rightarrow> int \<Rightarrow> synced_product \<Rightarrow> bool" where
  "stuck_filter timeoutMs now d =
     (processingStatus d = Processing \<and> lt_date (processingStartedAt d) (now - timeoutMs))"

definition cleanupStuckProcessing :: "int \<Rightarrow> int \<Rightarrow> ledger \<Rightarrow> ledger" where
  "cleanupStuckProcessing timeoutMs now db =
     updateMany (stuck_filter timeoutMs now)
       (\<lambda>d. d\<lparr>processingStatus := Failed,
              syncErrorMessage := Some ''Processing timeout - cleaned up by system'',
              updatedAt := now\<rparr>) db"

definition cleanupJob_cleanupStuckProcessing :: "int \<Rightarrow> ledger \<Rightarrow> ledger \<times> nat" where
  "cleanupJob_cleanupStuckProcessing now db =
     (let timeout = 30 * 60 * 1000 in
      (updateMany (stuck_filter timeout now)
         (\<lambda>d. d\<lparr>processingStatus := Failed,
                syncErrorMessage := Some ''Processing timeout'',
                updatedAt := now\<rparr>) db,
       length (filter (stuck_filter timeout now) db)))"

text \<open>
  Duplicate resolution (cleanupJob.js, lines 34-56). The aggregation groups the
  documents by \<open>bunjangPid\<close>, pushing each \<open>_id\<close> in scan order, and keeps the groups
  of more than one document. For each group the first id is kept and the others are
  deleted.
\<close>

fun group_push :: "string \<Rightarrow> nat \<Rightarrow> (string \<times> nat list) list \<Rightarrow> (string \<times> nat list) list" where
  "group_push k i [] = [(k, [i])]"
| "group_push k i ((k', ids) # gs) =
     (if k' = k then (k', ids @ [i]) # gs else (k', ids) # group_push k i gs)"

definition aggregate_duplicates :: "ledger \<Rightarrow> (string \<times> nat list) list" where
  "aggregate_duplicates db =
     filter (\<lambda>(k, ids). length ids > 1)
       (foldl (\<lambda>gs d. group_push (bunjangPid d) (doc_id d) gs) [] db)"

definition deleteMany_in :: "nat list \<Rightarrow> ledger \<Rightarrow> ledger" where
  "deleteMany_in ids db = filter (\<lambda>d. doc_id d \<notin> set ids) db"

definition findAndRemoveDuplicates :: "ledger \<Rightarrow> ledger" where
  "findAndRemoveDuplicates db =
     foldl (\<lambda>cur (k, ids). (case ids of [] \<Rightarrow> cur | keep # remove \<Rightarrow> deleteMany_in remove cur))
       db (aggregate_duplicates db)"

section \<open>Error tags and the cancellation decision (src/services/orderCancellationService.js)\<close>

subsection \<open>Strings and the error-tag patterns\<close>

text \<open>
  JavaScript's \<open>String.prototype.startsWith\<close> and \<open>includes\<close> (here \<open>str_includes\<close>) on character
  lists.
\<close>

fun startsWith :: "string \<Rightarrow> string \<Rightarrow> bool" where
  "startsWith s [] = True"
| "startsWith [] (c # p) = False"
| "startsWith (x # s) (c # p) = (x = c \<and> startsWith s p)"

fun str_includes :: "string \<Rightarrow> string \<Rightarrow> bool" where
  "str_includes [] p = (p = [])"
| "str_includes (x # s) p = (startsWith (x # s) p \<or> str_includes s p)"

text \<open>
  Each configured pattern becomes \<open>new RegExp(pattern.replace(/\*/g, '.*'))\<close>. The
  configured patterns hold letters, digits, \<open>-\<close>, \<open>_\<close> and \<open>*\<close> only, so the
  regular expression is a sequence of literal characters and of \<open>.*\<close> (any run of
  characters other than line terminators). \<open>regex.test(tag)\<close> is unanchored: it looks
  for a match starting anywhere in the tag.
\<close>

datatype re_atom = Lit char | AnyStar

definition globToRegex :: "string \<Rightarrow> re_atom list" where
  "globToRegex pattern = map (\<lambda>c. if c = CHR ''*'' then AnyStar else Lit c) pattern"

definition isLineTerminator :: "char \<Rightarrow> bool" where
  "isLineTerminator c = (c = CHR 0x0A \<or> c = CHR 0x0D)"

fun re_match :: "re_atom list \<Rightarrow> string \<Rightarrow> bool" where
  "re_match [] t = True"
| "re_match (Lit c # r) [] = False"
| "re_match (Lit c # r) (x # t) = (x = c \<and> re_match r t)"
| "re_match (AnyStar # r) [] = re_match r []"
| "re_match (AnyStar # r) (x # t) =
     (re_match r (x # t) \<or> (\<not> isLineTerminator x \<and> re_match (AnyStar # r) t))"

fun re_search :: "re_atom list \<Rightarrow> string \<Rightarrow> bool" where
  "re_search r [] = re_match r []"
| "re_search r (x # t) = (re_match r (x # t) \<or> re_search r t)"

definition regex_test :: "string \<Rightarrow> string \<Rightarrow> bool" where
  "regex_test pattern tag = re_search (globToRegex pattern) tag"

definition errorTagPatterns :: "string list" where
  "errorTagPatterns =
     [''BunjangOrder-*_Error'',
      ''PID-*-NotAvailable'',
      ''PID-*-InsufficientStock'',
      ''PID-*-NotFound'',
      ''PID-*-CreateFail'',
      ''PID-*-Exception'',
      ''URGENT-InsufficientPoints'',
      ''URGENT-AuthenticationError'']"

text \<open>
  \<open>checkBunjangOrderErrors\<close> (lines 41-55). The callback of \<open>tags.some\<close> runs the
  patterns in order and, at the first that matches, pushes the tag and returns true;
  \<open>some\<close> stops at the first tag for which the callback returns true.
\<close>

fun matches_some_pattern :: "string list \<Rightarrow> string \<Rightarrow> bool" where
  "matches_some_pattern [] tag = False"
| "matches_some_pattern (p # ps) tag =
     (if regex_test p tag then True else matches_some_pattern ps tag)"

fun some_pushing :: "string list \<Rightarrow> string list \<Rightarrow> bool \<times> string list" where
  "some_pushing [] errors = (False, errors)"
| "some_pushing (tag # tags) errors =
     (if matches_some_pattern errorTagPatterns tag then (True, errors @ [tag])
      else some_pushing tags errors)"

record error_check =
  hasError :: bool
  errorTypes :: "string list"

definition checkBunjangOrderErrors :: "string list \<Rightarrow> error_check" where
  "checkBunjangOrderErrors tags =
     (case some_pushing tags [] of (h, errors) \<Rightarrow> \<lparr>hasError = h, errorTypes = errors\<rparr>)"

text \<open>
  \<open>handleOrderUpdate\<close> (src/hooks/orderCancellationHooks.js, lines 77-113): what it
  asks the queue to schedule. The result is \<open>None\<close> for \<open>{scheduled: false}\<close>.
\<close>

record scheduled_cancellation =
  sc_orderId :: string
  sc_errorTypes :: "string list"
  sc_isUrgent :: bool
  sc_delay :: nat

definition isUrgentTag :: "string \<Rightarrow> bool" where
  "isUrgentTag tag =
     (str_includes tag ''URGENT-'' \<or> str_includes tag ''InsufficientPoints'' \<or>
      str_includes tag ''AuthenticationError'')"

definition handleOrderUpdate ::
  "string \<Rightarrow> string list \<Rightarrow> string list \<Rightarrow> scheduled_cancellation option" where
  "handleOrderUpdate orderId updatedTags previousTags =
     (let newTags = filter (\<lambda>tag. tag \<notin> set previousTags) updatedTags;
          errorCheck = checkBunjangOrderErrors newTags
      in if hasError errorCheck then
           (let isUrgent = list_ex isUrgentTag (errorTypes errorCheck);
                delay = (if isUrgent then 0 else 60000)
            in Some \<lparr>sc_orderId = orderId, sc_errorTypes = errorTypes errorCheck,
                     sc_isUrgent = isUrgent, sc_delay = delay\<rparr>)
         else None)"

subsection \<open>The cancellation decision\<close>

text \<open>
  Errors are values. \<open>JsError name code\<close> is a thrown error with its class name
  and its \<open>errorCode\<close> property, if it has one.
\<close>

datatype js_error = JsError string "string option"

fun errorCode :: "js_error \<Rightarrow> string option" where
  "errorCode (JsError n c) = c"

text \<open>
  The order as the GraphQL query \<open>getOrderDetails\<close> returns it (lines 68-105):
  \<open>li_sku\<close> is \<open>lineItem.variant?.sku\<close>, \<open>od_metafield\<close> is
  \<open>order.metafield?.value\<close>.
\<close>

record line_item =
  li_id :: string
  li_title :: string
  li_quantity :: int
  li_sku :: "string option"

record order_details =
  od_id :: string
  od_name :: string
  od_cancelledAt :: "string option"
  od_tags :: "string list"
  od_lineItems :: "line_item list"
  od_metafield :: "string option"

record cancel_options =
  opt_notifyCustomer :: "bool option"
  opt_autoRefund :: "bool option"

text \<open>
  The requests the service sends to the storefront: the \<open>orderCancel\<close> mutation
  with its five variables, the \<open>refundCreate\<close> mutation with its input, and
  \<open>updateOrder\<close> with the tags it sets.
\<close>

record refund_line =
  rl_lineItemId :: string
  rl_quantity :: int
  rl_restockType :: string

datatype storefront_request =
    OrderCancel string bool string bool bool
  | RefundCreate string string bool "refund_line list"
  | UpdateOrderTags string "string list"

fun is_OrderCancel :: "storefront_request \<Rightarrow> bool" where
  "is_OrderCancel (OrderCancel i n r f s) = True"
| "is_OrderCancel q = False"

fun is_RefundCreate :: "storefront_request \<Rightarrow> bool" where
  "is_RefundCreate (RefundCreate i t n ls) = True"
| "is_RefundCreate q = False"

text \<open>
  The replies of the collaborators, as far as the service reads them:
  \<open>userErrors\<close> and the \<open>job\<close> (its id) of \<open>orderCancel\<close>; \<open>userErrors\<close> and
  the \<open>refund\<close> (its id and refunded amount) of \<open>refundCreate\<close>. A collaborator may
  throw instead (\<open>Inl\<close>). \<open>JSON_parse\<close> is \<open>None\<close> where \<open>JSON.parse\<close> throws
  a \<open>SyntaxError\<close>, and the parsed array of downstream order ids otherwise.
  \<open>cfg_notifyCustomer\<close> is \<open>CANCELLATION_CONFIG.notifyCustomer\<close>, read from the
  process environment.
\<close>

record cancel_reply =
  cr_userErrors :: "string list"
  cr_job :: "string option"

record refund_reply =
  rr_userErrors :: "string list"
  rr_refund :: "(string \<times> string option) option"

record cancel_env =
  ce_getOrderDetails :: "string \<Rightarrow> js_error + order_details option"
  ce_orderCancel :: "storefront_request \<Rightarrow> js_error + cancel_reply"
  ce_refundCreate :: "storefront_request \<Rightarrow> js_error + refund_reply"
  ce_updateOrder :: "storefront_request \<Rightarrow> js_error option"
  ce_JSON_parse :: "string \<Rightarrow> string list option"
  cfg_notifyCustomer :: bool

definition cfg_autoRefund :: bool where
  "cfg_autoRefund = True"

datatype cancellation_result =
    AlreadyCancelled
  | NoErrors
  | Cancelled string string
  | Refunded string "string option" nat
  | NoFailedItems
  | Undefined

text \<open>\<open>a ?? b\<close> on an optional boolean.\<close>

definition nullish :: "'a option \<Rightarrow> 'a \<Rightarrow> 'a" where
  "nullish a b = (case a of None \<Rightarrow> b | Some v \<Rightarrow> v)"

text \<open>
  \<open>cancelEntireOrder\<close> (lines 193-269). The result pairs what the function returns
  or throws with the requests it has sent, in order. When the reply carries no job the
  function falls off its end and returns \<open>undefined\<close>.
\<close>

definition cancelEntireOrder ::
  "cancel_env \<Rightarrow> order_details \<Rightarrow> cancel_options
     \<Rightarrow> (js_error + cancellation_result) \<times> storefront_request list" where
  "cancelEntireOrder env order options =
     (let mutation = OrderCancel (od_id order)
                       (nullish (opt_notifyCustomer options) (cfg_notifyCustomer env))
                       ''OTHER''
                       (nullish (opt_autoRefund options) cfg_autoRefund)
                       False
      in case ce_orderCancel env mutation of
           Inl e \<Rightarrow> (Inl e, [mutation])
         | Inr response \<Rightarrow>
             if length (cr_userErrors response) > 0 then
               (Inl (JsError ''ExternalServiceError'' (Some ''ORDER_CANCEL_ERROR'')), [mutation])
             else (case cr_job response of
                     None \<Rightarrow> (Inr Undefined, [mutation])
                   | Some jobId \<Rightarrow>
                       (let upd = UpdateOrderTags (od_id order)
                                    (od_tags order @ [''auto-cancelled'', ''bunjang-order-failed''])
                        in case ce_updateOrder env upd of
                             Some e \<Rightarrow> (Inl e, [mutation, upd])
                           | None \<Rightarrow> (Inr (Cancelled jobId (od_name order)), [mutation, upd]))))"

text \<open>\<open>cancelFailedLineItems\<close> (lines 277-351).\<close>

definition refundLineItems :: "line_item list \<Rightarrow> refund_line list" where
  "refundLineItems lineItemsToCancel =
     map (\<lambda>item. \<lparr>rl_lineItemId = li_id item, rl_quantity = li_quantity item,
                   rl_restockType = ''NO_RESTOCK''\<rparr>) lineItemsToCancel"

definition cancelFailedLineItems ::
  "cancel_env \<Rightarrow> order_details \<Rightarrow> line_item list \<Rightarrow> cancel_options
     \<Rightarrow> (js_error + cancellation_result) \<times> storefront_request list" where
  "cancelFailedLineItems env order lineItemsToCancel options =
     (let mutation = RefundCreate (od_id order)
                       ''Automatic refund due to Bunjang order creation failure''
                       (nullish (opt_notifyCustomer options) (cfg_notifyCustomer env))
                       (refundLineItems lineItemsToCancel)
      in case ce_refundCreate env mutation of
           Inl e \<Rightarrow> (Inl e, [mutation])
         | Inr response \<Rightarrow>
             if length (rr_userErrors response) > 0 then
               (Inl (JsError ''ExternalServiceError'' (Some ''REFUND_CREATE_ERROR'')), [mutation])
             else (case rr_refund response of
                     None \<Rightarrow> (Inr Undefined, [mutation])
                   | Some (refundId, amount) \<Rightarrow>
                       (let upd = UpdateOrderTags (od_id order)
                                    (od_tags order @ [''partial-refund'', ''bunjang-items-refunded''])
                        in case ce_updateOrder env upd of
                             Some e \<Rightarrow> (Inl e, [mutation, upd])
                           | None \<Rightarrow>
                               (Inr (Refunded refundId amount (length lineItemsToCancel)),
                                [mutation, upd]))))"

text \<open>
  The partition of the line items (lines 133-153). A line item counts only when its
  SKU starts with \<open>BJ-\<close>; it is failed when one tag of the order contains both
  \<open>PID-<pid>-\<close> and \<open>Error\<close>, and successful when it is not failed and the
  order's metafield lists at least one downstream order id.
\<close>

definition hasErrorTag :: "string list \<Rightarrow> line_item \<Rightarrow> bool" where
  "hasErrorTag tags lineItem =
     (case li_sku lineItem of
        None \<Rightarrow> False
      | Some sku \<Rightarrow>
          (let pid = drop 3 sku
           in list_ex (\<lambda>tag. str_includes tag (''PID-'' @ pid @ ''-'') \<and>
                              str_includes tag ''Error'') tags))"

definition isBunjangItem :: "line_item \<Rightarrow> bool" where
  "isBunjangItem lineItem =
     (case li_sku lineItem of
        None \<Rightarrow> False
      | Some sku \<Rightarrow> sku \<noteq> [] \<and> startsWith sku ''BJ-'')"

definition failedLineItems :: "order_details \<Rightarrow> line_item list" where
  "failedLineItems order =
     filter (\<lambda>lineItem. isBunjangItem lineItem \<and> hasErrorTag (od_tags order) lineItem)
       (od_lineItems order)"

definition successfulLineItems :: "order_details \<Rightarrow> bool \<Rightarrow> line_item list" where
  "successfulLineItems order hasSuccessfulBunjangOrders =
     filter (\<lambda>lineItem. isBunjangItem lineItem \<and> \<not> hasErrorTag (od_tags order) lineItem \<and>
                         hasSuccessfulBunjangOrders)
       (od_lineItems order)"

text \<open>
  \<open>bunjangOrderIds\<close> (line 130): the parsed metafield when it has a truthy value,
  the empty list otherwise; \<open>None\<close> when \<open>JSON.parse\<close> throws.
\<close>

definition parsedOrderIds :: "cancel_env \<Rightarrow> order_details \<Rightarrow> string list option" where
  "parsedOrderIds env order =
     (case od_metafield order of
        None \<Rightarrow> Some []
      | Some v \<Rightarrow> if v = [] then Some [] else ce_JSON_parse env v)"

text \<open>\<open>processCancellationForOrder\<close> (lines 63-186).\<close>

definition processCancellationForOrder ::
  "cancel_env \<Rightarrow> string \<Rightarrow> cancel_options
     \<Rightarrow> (js_error + cancellation_result) \<times> storefront_request list" where
  "processCancellationForOrder env orderId options =
     (case ce_getOrderDetails env orderId of
        Inl e \<Rightarrow> (Inl e, [])
      | Inr None \<Rightarrow> (Inl (JsError ''NotFoundError'' None), [])
      | Inr (Some order) \<Rightarrow>
          if od_cancelledAt order \<noteq> None then (Inr AlreadyCancelled, [])
          else if \<not> hasError (checkBunjangOrderErrors (od_tags order)) then (Inr NoErrors, [])
          else (case parsedOrderIds env order of
                  None \<Rightarrow> (Inl (JsError ''SyntaxError'' None), [])
                | Some orderIds \<Rightarrow>
                    (let hasSuccessfulBunjangOrders = length orderIds > 0;
                         failed = failedLineItems order;
                         successful = successfulLineItems order hasSuccessfulBunjangOrders
                     in if length failed > 0 \<and> length successful > 0 then
                          cancelFailedLineItems env order failed options
                        else if length failed > 0 then
                          cancelEntireOrder env order options
                        else (Inr NoFailedItems, []))))"

section \<open>The sold-status handler (src/services/inventoryService.js)\<close>

text \<open>
  The service talks to the ledger and to the storefront client. Every call is
  written to a log together with its outcome (\<open>None\<close> when it returned,
  \<open>Some e\<close> when it threw \<open>e\<close>). The environment decides, from the log so far,
  whether a call throws and what the two storefront queries return, so that the same
  call may behave differently at different times.

  \<open>UpdateInventoryLevel item location quantity\<close> is the call
  \<open>shopifyService.updateInventoryLevel(inventoryItemId, BUNJANG_WAREHOUSE_GID, quantity)\<close>
  as the inventory service makes it, with the arguments it passes: the log says what
  the service asked for. What the client then writes to the storefront is
  \<open>setQuantitiesInput\<close>, at the end of this section.
\<close>

datatype inventory_call =
    FindOne string
  | VariantsQuery string
  | UpdateInventoryLevel string string int
  | UpdateOne string int
  | ProductQuery string
  | UpdateProduct string string string "string list"
  | Save nat

type_synonym inventory_event = "inventory_call \<times> js_error option"

fun is_UpdateProduct :: "inventory_call \<Rightarrow> bool" where
  "is_UpdateProduct (UpdateProduct g t s ts) = True"
| "is_UpdateProduct c = False"


text \<open>
  What \<open>getProductVariants\<close> gives for the first variant: no product or no variant,
  a variant without an inventory item id, or the id.
\<close>

datatype variants_reply = NoVariants | NoInventoryItem | InventoryItem string

record shop_product =
  sp_title :: string
  sp_tags :: "string list"

record inventory_env =
  ie_throws :: "inventory_event list \<Rightarrow> inventory_call \<Rightarrow> js_error option"
  ie_variants :: "inventory_event list \<Rightarrow> string \<Rightarrow> variants_reply"
  ie_product :: "inventory_event list \<Rightarrow> string \<Rightarrow> shop_product option"
  BUNJANG_WAREHOUSE_GID :: string

record inventory_state =
  st_ledger :: ledger
  st_calls :: "inventory_event list"

definition invoke ::
  "inventory_env \<Rightarrow> inventory_call \<Rightarrow> inventory_state \<Rightarrow> (js_error + unit) \<times> inventory_state" where
  "invoke env c st =
     (let outcome = ie_throws env (st_calls st) c;
          st' = st\<lparr>st_calls := st_calls st @ [(c, outcome)]\<rparr>
      in (case outcome of None \<Rightarrow> (Inr (), st') | Some e \<Rightarrow> (Inl e, st')))"

text \<open>Sequencing: an error ends the computation, as a thrown exception does.\<close>

definition bindR ::
  "('e + 'a) \<times> 's \<Rightarrow> ('a \<Rightarrow> 's \<Rightarrow> ('e + 'b) \<times> 's) \<Rightarrow> ('e + 'b) \<times> 's" where
  "bindR r f = (case r of (Inl e, s) \<Rightarrow> (Inl e, s) | (Inr a, s) \<Rightarrow> f a s)"

text \<open>
  The ledger operations of the service: \<open>findOne({bunjangPid})\<close>,
  \<open>updateOne({bunjangPid}, {$set: ...})\<close> on the first match, and
  \<open>document.save()\<close>, which writes the paths modified in memory to the stored
  document with the same \<open>_id\<close>.
\<close>

definition findOne :: "string \<Rightarrow> ledger \<Rightarrow> synced_product option" where
  "findOne pid db = find (\<lambda>d. bunjangPid d = pid) db"

definition updateOne :: "string \<Rightarrow> (synced_product \<Rightarrow> synced_product) \<Rightarrow> ledger \<Rightarrow> ledger" where
  "updateOne pid upd db = snd (findOneAndUpdate (\<lambda>d. bunjangPid d = pid) upd db)"

definition saveModified :: "nat \<Rightarrow> (synced_product \<Rightarrow> synced_product) \<Rightarrow> ledger \<Rightarrow> ledger" where
  "saveModified i upd db = map (\<lambda>d. if doc_id d = i then upd d else d) db"

text \<open>\<open>syncBunjangInventoryToShopify\<close> (lines 25-103).\<close>

definition syncBunjangInventoryToShopify ::
  "inventory_env \<Rightarrow> int \<Rightarrow> string \<Rightarrow> int \<Rightarrow> inventory_state
     \<Rightarrow> (js_error + bool) \<times> inventory_state" where
  "syncBunjangInventoryToShopify env now pid quantity st =
     bindR (invoke env (FindOne pid) st) (\<lambda>_ st1.
       case findOne pid (st_ledger st1) of
         None \<Rightarrow> (Inr False, st1)
       | Some syncedProduct \<Rightarrow>
           (case shopifyGid syncedProduct of
              None \<Rightarrow> (Inr False, st1)
            | Some gid \<Rightarrow>
                if gid = [] then (Inr False, st1)
                else
                  bindR (invoke env (VariantsQuery gid) st1) (\<lambda>_ st2.
                    case ie_variants env (st_calls st1) gid of
                      NoVariants \<Rightarrow> (Inr False, st2)
                    | NoInventoryItem \<Rightarrow> (Inr False, st2)
                    | InventoryItem inventoryItemId \<Rightarrow>
                        bindR (invoke env
                                 (UpdateInventoryLevel inventoryItemId (BUNJANG_WAREHOUSE_GID env) quantity)
                                 st2) (\<lambda>_ st3.
                          bindR (invoke env (UpdateOne pid quantity) st3) (\<lambda>_ st4.
                            (Inr True,
                             st4\<lparr>st_ledger :=
                                   updateOne pid
                                     (\<lambda>d. d\<lparr>bunjangQuantity := quantity,
                                            lastInventorySyncAt := Some now,
                                            updatedAt := now\<rparr>)
                                     (st_ledger st4)\<rparr>))))))"

text \<open>
  \<open>markProductAsSoldOut\<close> (lines 257-298) and \<open>markProductAsDraft\<close> (lines
  204-250). \<open>[...new Set(tags)]\<close> keeps the first occurrence of each tag.
\<close>

definition markProductAsSoldOut ::
  "inventory_env \<Rightarrow> int \<Rightarrow> string \<Rightarrow> string \<Rightarrow> inventory_state
     \<Rightarrow> (js_error + unit) \<times> inventory_state" where
  "markProductAsSoldOut env now gid pid st =
     bindR (syncBunjangInventoryToShopify env now pid 0 st) (\<lambda>_ st1.
       bindR (invoke env (ProductQuery gid) st1) (\<lambda>_ st2.
         case ie_product env (st_calls st1) gid of
           None \<Rightarrow> (Inr (), st2)
         | Some product \<Rightarrow>
             (let newTitle = (if \<not> str_includes (sp_title product) ''[SOLD OUT]''
                              then ''[SOLD OUT] '' @ sp_title product
                              else sp_title product)
              in invoke env
                   (UpdateProduct gid newTitle ''DRAFT'' [''sold_out'', ''sold_both_platforms''])
                   st2)))"

definition soldOnBunjangMarker :: string where
  "soldOnBunjangMarker =
     [CHR ''['', CHR 0xEB, CHR 0xB2, CHR 0x88, CHR 0xEA, CHR 0xB0, CHR 0x9C, CHR 0xEC, CHR 0x9E,
      CHR 0xA5, CHR 0xED, CHR 0x84, CHR 0xB0, CHR '' '', CHR 0xED, CHR 0x8C, CHR 0x90, CHR 0xEB,
      CHR 0xA7, CHR 0xA4, CHR 0xEC, CHR 0x99, CHR 0x84, CHR 0xEB, CHR 0xA3, CHR 0x8C, CHR '']'']"

definition markProductAsDraft ::
  "inventory_env \<Rightarrow> int \<Rightarrow> string \<Rightarrow> string \<Rightarrow> string \<Rightarrow> inventory_state
     \<Rightarrow> (js_error + unit) \<times> inventory_state" where
  "markProductAsDraft env now gid pid platform st =
     bindR (syncBunjangInventoryToShopify env now pid 0 st) (\<lambda>_ st1.
       bindR (invoke env (ProductQuery gid) st1) (\<lambda>_ st2.
         case ie_product env (st_calls st1) gid of
           None \<Rightarrow> (Inr (), st2)
         | Some product \<Rightarrow>
             (let mark = (platform = ''bunjang'' \<and>
                          \<not> str_includes (sp_title product) soldOnBunjangMarker);
                  newTitle = (if mark then soldOnBunjangMarker @ '' '' @ sp_title product
                              else sp_title product);
                  tags = (if mark then sp_tags product @ [''sold_bunjang_only'']
                          else sp_tags product)
              in invoke env (UpdateProduct gid newTitle ''DRAFT'' (rev (remdups (rev tags)))) st2)))"

text \<open>
  \<open>handleProductSoldStatus\<close> (lines 112-196). The third argument is the string the
  caller passes; any value other than the three of the \<open>switch\<close> falls to its
  \<open>default\<close>.
\<close>

record sold_result =
  sr_action :: "string option"
  sr_success :: bool
  sr_message :: string

definition handleProductSoldStatus ::
  "inventory_env \<Rightarrow> int \<Rightarrow> string \<Rightarrow> string \<Rightarrow> string \<Rightarrow> inventory_state
     \<Rightarrow> (js_error + sold_result) \<times> inventory_state" where
  "handleProductSoldStatus env now pid gid origin st =
     bindR (invoke env (FindOne pid) st) (\<lambda>_ st1.
       case findOne pid (st_ledger st1) of
         None \<Rightarrow> (Inr \<lparr>sr_action = None, sr_success = False, sr_message = []\<rparr>, st1)
       | Some syncedProduct \<Rightarrow>
           if origin = ''both'' then
             bindR (markProductAsSoldOut env now gid pid st1) (\<lambda>_ st2.
               bindR (invoke env (Save (doc_id syncedProduct)) st2) (\<lambda>_ st3.
                 (Inr \<lparr>sr_action = Some ''marked_sold_out'', sr_success = True,
                       sr_message = ''Product marked as SOLD OUT (sold on both platforms)''\<rparr>,
                  st3\<lparr>st_ledger :=
                        saveModified (doc_id syncedProduct)
                          (\<lambda>d. d\<lparr>shopifyStatus := Some SOLD_OUT, soldFrom := Some Both,
                                 soldAt := Some now, updatedAt := now\<rparr>)
                          (st_ledger st3)\<rparr>)))
           else if origin = ''bunjang'' then
             bindR (markProductAsDraft env now gid pid ''bunjang'' st1) (\<lambda>_ st2.
               bindR (invoke env (Save (doc_id syncedProduct)) st2) (\<lambda>_ st3.
                 (Inr \<lparr>sr_action = Some ''marked_draft_bunjang'', sr_success = True,
                       sr_message = ''Product marked as DRAFT (sold only on Bunjang)''\<rparr>,
                  st3\<lparr>st_ledger :=
                        saveModified (doc_id syncedProduct)
                          (\<lambda>d. d\<lparr>shopifyStatus := Some DRAFT, soldFrom := Some Bunjang,
                                 soldAt := Some now, bunjangSoldAt := Some now,
                                 updatedAt := now\<rparr>)
                          (st_ledger st3)\<rparr>)))
           else if origin = ''shopify'' then
             bindR (syncBunjangInventoryToShopify env now pid 0 st1) (\<lambda>_ st2.
               bindR (invoke env (Save (doc_id syncedProduct)) st2) (\<lambda>_ st3.
                 (Inr \<lparr>sr_action = Some ''pending_bunjang_order'', sr_success = True,
                       sr_message = ''Waiting for Bunjang order creation''\<rparr>,
                  st3\<lparr>st_ledger :=
                        saveModified (doc_id syncedProduct)
                          (\<lambda>d. d\<lparr>pendingBunjangOrder := True, shopifySoldAt := Some now,
                                 updatedAt := now\<rparr>)
                          (st_ledger st3)\<rparr>)))
           else (Inr \<lparr>sr_action = None, sr_success = False,
                      sr_message = ''Unknown sold source''\<rparr>, st1))"

text \<open>
  \<open>shopifyService.updateInventoryLevel(inventoryItemId, locationId, availableQuantity)\<close>
  (shopifyService.js, lines 1062-1201), as far as the quantity it writes. Without an
  inventory item id it returns \<open>null\<close> and sends nothing. Otherwise, after looking
  up the inventory levels of the item and activating the location where needed, it
  sends the mutation \<open>inventorySetOnHandQuantities\<close> whose input sets, for the item
  at \<open>locationId || BUNJANG_WAREHOUSE_GID\<close> (both services read the constant from
  \<open>SHOPIFY_DEFAULT_LOCATION_ID\<close>), the constant \<open>forcedQuantity\<close>; the argument
  \<open>availableQuantity\<close> is never read.
\<close>

definition forcedQuantity :: int where
  "forcedQuantity = 1"

record set_quantity =
  sq_inventoryItemId :: string
  sq_locationId :: string
  sq_quantity :: int

definition setQuantitiesInput :: "inventory_env \<Rightarrow> string \<Rightarrow> string \<Rightarrow> int \<Rightarrow> set_quantity option" where
  "setQuantitiesInput env inventoryItemId locationId availableQuantity =
     (if inventoryItemId = [] then None
      else (let targetLocationId = (if locationId = [] then BUNJANG_WAREHOUSE_GID env else locationId)
            in Some \<lparr>sq_inventoryItemId = inventoryItemId, sq_locationId = targetLocationId,
                      sq_quantity = forcedQuantity\<rparr>))"

section \<open>The order orchestrator (src/services/orderService.js)\<close>

text \<open>
  A storefront order as the orchestrator reads it: \<open>id\<close>, \<open>admin_graphql_api_id\<close>
  and \<open>line_items\<close>, each line item with its \<open>product_id\<close>. A missing id is the
  empty string. The source listing's detail holds \<open>status\<close>, \<open>saleStatus\<close> and
  \<open>quantity\<close>, each possibly undefined.

  \<open>mappers/orderMapper\<close> is not part of the sources at hand: the payload that
  \<open>mapShopifyItemToBunjangOrderPayload\<close> builds is kept as the triple of its
  arguments, and the environment says whether the mapper throws.
\<close>

record shopify_line =
  sl_id :: string
  sl_product_id :: string

record shopify_order =
  so_id :: string
  so_gid :: string
  so_line_items :: "shopify_line list"

record bunjang_details =
  bd_status :: "string option"
  bd_saleStatus :: "string option"
  bd_quantity :: "int option"

datatype payload = Payload shopify_line string bunjang_details

text \<open>
  The log of collaborator calls. A call whose outcome matters later carries it:
  the value of the metafield read, the outcome of \<open>updateOrder\<close> and of
  \<open>inventoryService.handleProductSoldStatus\<close> (\<open>None\<close> when it returned), and the
  reply of \<open>createBunjangOrderV2\<close> (\<open>Inr (Some id)\<close> when the response carries an
  order id, \<open>Inr None\<close> when it does not, \<open>Inl e\<close> when the call threw).
\<close>

datatype order_event =
    GetOrderMetafield string "string option"
  | FindSyncedProduct string
  | GetProductTags string
  | GetBunjangProductDetails string
  | UpdateOrder string "string list" "(string \<times> string) list" "js_error option"
  | CreateBunjangOrderV2 payload "js_error + string option"
  | GetBunjangPointBalance
  | SoldStatusCall string "string option" string "js_error option"

text \<open>
  The environment answers each call from the log so far. \<open>oe_orderIdsMetafield\<close> is
  the value of the \<open>bunjang\<close>/\<open>order_ids\<close> metafield that the storefront holds
  for an order (\<open>None\<close> when it holds none), and \<open>oe_metafieldQueryThrows\<close> says
  whether the GraphQL request that reads it throws. \<open>oe_findSyncedProduct\<close> is
  the ledger lookup by storefront product (the \<open>bunjangPid\<close> and \<open>shopifyGid\<close> of
  the document found); \<open>oe_JSON_parse\<close> is \<open>None\<close> where \<open>JSON.parse\<close> throws.
\<close>

record order_env =
  oe_orderIdsMetafield :: "order_event list \<Rightarrow> string \<Rightarrow> string option"
  oe_metafieldQueryThrows :: "order_event list \<Rightarrow> string \<Rightarrow> js_error option"
  oe_findSyncedProduct :: "order_event list \<Rightarrow> string \<Rightarrow> js_error + (string \<times> string option) option"
  oe_productTags :: "order_event list \<Rightarrow> string \<Rightarrow> js_error + string list option"
  oe_getBunjangProductDetails :: "order_event list \<Rightarrow> string \<Rightarrow> js_error + bunjang_details option"
  oe_updateOrder :: "order_event list \<Rightarrow> string \<Rightarrow> string list \<Rightarrow> (string \<times> string) list \<Rightarrow> js_error option"
  oe_mapPayloadThrows :: "shopify_line \<Rightarrow> string \<Rightarrow> bunjang_details \<Rightarrow> js_error option"
  oe_createBunjangOrderV2 :: "order_event list \<Rightarrow> payload \<Rightarrow> js_error + string option"
  oe_getBunjangPointBalance :: "order_event list \<Rightarrow> js_error + int option"
  oe_handleProductSoldStatus :: "order_event list \<Rightarrow> string \<Rightarrow> string option \<Rightarrow> js_error option"
  oe_JSON_parse :: "string \<Rightarrow> string list option"
  oe_JSON_stringify :: "string list \<Rightarrow> string"
  oe_nowISO :: string
  cfg_orderIdentifierPrefix :: "string option"
  cfg_lowBalanceThreshold :: "int option"
  SKIP_STATUS_CHECK :: bool

record orch_state =
  os_log :: "order_event list"
  createdBunjangOrderIds :: "string list"
  bunjangOrderSuccessfullyCreatedOverall :: bool

record order_result =
  res_success :: bool
  res_alreadyProcessed :: bool
  res_bunjangOrderIds :: "string list"
  res_message :: string

text \<open>Decimal digits of a number, as a template literal prints it.\<close>

definition digitChar :: "nat \<Rightarrow> char" where
  "digitChar d = ''0123456789'' ! d"

fun natToString :: "nat \<Rightarrow> string" where
  "natToString n =
     (if 10 \<le> n then natToString (n div 10) @ [digitChar (n mod 10)] else [digitChar n])"

declare natToString.simps [simp del]

definition numberToString :: "int \<Rightarrow> string" where
  "numberToString i = (if 0 \<le> i then natToString (nat i) else CHR ''-'' # natToString (nat (- i)))"

text \<open>\<open>a || b\<close> on strings that may be undefined, and \<open>${v}\<close> in a template.\<close>

definition js_or :: "string option \<Rightarrow> string option \<Rightarrow> string option" where
  "js_or a b = (case a of None \<Rightarrow> b | Some s \<Rightarrow> if s = [] then b else Some s)"

definition template :: "string option \<Rightarrow> string" where
  "template v = (case v of None \<Rightarrow> ''undefined'' | Some s \<Rightarrow> s)"

definition tryCatch ::
  "('e + 'a) \<times> 's \<Rightarrow> ('e \<Rightarrow> 's \<Rightarrow> ('e + 'a) \<times> 's) \<Rightarrow> ('e + 'a) \<times> 's" where
  "tryCatch r handler = (case r of (Inl e, s) \<Rightarrow> handler e s | (Inr a, s) \<Rightarrow> (Inr a, s))"

definition record_event :: "order_event \<Rightarrow> orch_state \<Rightarrow> orch_state" where
  "record_event ev st = st\<lparr>os_log := os_log st @ [ev]\<rparr>"

definition bunjangOrderIdentifier :: "order_env \<Rightarrow> shopify_order \<Rightarrow> string" where
  "bunjangOrderIdentifier env shopifyOrder =
     template (js_or (cfg_orderIdentifierPrefix env) (Some ''BunjangOrder-'')) @ so_id shopifyOrder"

definition updateOrder ::
  "order_env \<Rightarrow> string \<Rightarrow> string list \<Rightarrow> (string \<times> string) list \<Rightarrow> orch_state
     \<Rightarrow> (js_error + unit) \<times> orch_state" where
  "updateOrder env gid tags metafields st =
     (let outcome = oe_updateOrder env (os_log st) gid tags metafields;
          st' = record_event (UpdateOrder gid tags metafields outcome) st
      in (case outcome of None \<Rightarrow> (Inr (), st') | Some e \<Rightarrow> (Inl e, st')))"

text \<open>
  Resolution of a line item (lines 50-102): the ledger first, then the
  \<open>bunjang_pid:\<close> tag of the storefront listing, whose lookup swallows its errors.
  \<open>tag.split(':')[1]\<close> is the text between the first colon and the second.
\<close>

definition secondSegment :: "string \<Rightarrow> string" where
  "secondSegment tag =
     takeWhile (\<lambda>c. c \<noteq> CHR '':'') (tl (dropWhile (\<lambda>c. c \<noteq> CHR '':'') tag))"

definition lookupByTag ::
  "order_env \<Rightarrow> string \<Rightarrow> orch_state \<Rightarrow> (string \<times> string option) option \<times> orch_state" where
  "lookupByTag env productId st =
     (let productGid = ''gid://shopify/Product/'' @ productId;
          reply = oe_productTags env (os_log st) productGid;
          st' = record_event (GetProductTags productGid) st
      in case reply of
           Inl e \<Rightarrow> (None, st')
         | Inr None \<Rightarrow> (None, st')
         | Inr (Some tags) \<Rightarrow>
             (case find (\<lambda>tag. startsWith tag ''bunjang_pid:'') tags of
                None \<Rightarrow> (None, st')
              | Some bunjangPidTag \<Rightarrow> (Some (secondSegment bunjangPidTag, Some productGid), st')))"

definition resolveSyncedProduct ::
  "order_env \<Rightarrow> string \<Rightarrow> orch_state
     \<Rightarrow> (js_error + (string \<times> string option) option) \<times> orch_state" where
  "resolveSyncedProduct env productId st =
     (let reply = oe_findSyncedProduct env (os_log st) productId;
          st1 = record_event (FindSyncedProduct productId) st
      in case reply of
           Inl e \<Rightarrow> (Inl e, st1)
         | Inr (Some syncedProduct) \<Rightarrow> (Inr (Some syncedProduct), st1)
         | Inr None \<Rightarrow> (case lookupByTag env productId st1 of (r, st2) \<Rightarrow> (Inr r, st2)))"

text \<open>
  The point-balance check (lines 161-178) has a \<open>try\<close> of its own and never throws.
\<close>

definition checkPointBalance :: "order_env \<Rightarrow> shopify_order \<Rightarrow> orch_state \<Rightarrow> orch_state" where
  "checkPointBalance env shopifyOrder st =
     (let reply = oe_getBunjangPointBalance env (os_log st);
          st1 = record_event GetBunjangPointBalance st;
          threshold = (case cfg_lowBalanceThreshold env of
                         None \<Rightarrow> 1000000
                       | Some t \<Rightarrow> if t = 0 then 1000000 else t)
      in case reply of
           Inl e \<Rightarrow> st1
         | Inr None \<Rightarrow> st1
         | Inr (Some balance) \<Rightarrow>
             if balance < threshold then
               snd (updateOrder env (so_gid shopifyOrder)
                      [''LowPointBalance'', ''Balance-'' @ numberToString balance] [] st1)
             else st1)"

text \<open>After a downstream order was created (lines 152-185).\<close>

definition afterCreated ::
  "order_env \<Rightarrow> shopify_order \<Rightarrow> string \<Rightarrow> string option \<Rightarrow> string \<Rightarrow> orch_state
     \<Rightarrow> (js_error + unit) \<times> orch_state" where
  "afterCreated env shopifyOrder pid gid bunjangOrderId st =
     (let st1 = st\<lparr>createdBunjangOrderIds := createdBunjangOrderIds st @ [bunjangOrderId],
                   bunjangOrderSuccessfullyCreatedOverall := True\<rparr>
      in bindR (updateOrder env (so_gid shopifyOrder)
                  [''BunjangOrder-'' @ bunjangOrderId, ''PID-'' @ pid @ ''-Success''] [] st1)
           (\<lambda>_ st2.
              let st3 = checkPointBalance env shopifyOrder st2;
                  outcome = oe_handleProductSoldStatus env (os_log st3) pid gid;
                  st4 = record_event (SoldStatusCall pid gid ''shopify'' outcome) st3
              in (case outcome of None \<Rightarrow> (Inr (), st4) | Some e \<Rightarrow> (Inl e, st4))))"

text \<open>The order creation call with its \<open>try\<close> and \<open>catch\<close> (lines 148-206).\<close>

definition createOrderAttempt ::
  "order_env \<Rightarrow> shopify_order \<Rightarrow> string \<Rightarrow> string option \<Rightarrow> payload \<Rightarrow> orch_state
     \<Rightarrow> (js_error + unit) \<times> orch_state" where
  "createOrderAttempt env shopifyOrder pid gid bunjangOrderPayload st =
     tryCatch
       (let reply = oe_createBunjangOrderV2 env (os_log st) bunjangOrderPayload;
            st1 = record_event (CreateBunjangOrderV2 bunjangOrderPayload reply) st
        in case reply of
             Inl e \<Rightarrow> (Inl e, st1)
           | Inr (Some bunjangOrderId) \<Rightarrow> afterCreated env shopifyOrder pid gid bunjangOrderId st1
           | Inr None \<Rightarrow>
               updateOrder env (so_gid shopifyOrder)
                 [bunjangOrderIdentifier env shopifyOrder @ ''_Error'',
                  ''PID-'' @ pid @ ''-InvalidResponse''] [] st1)
       (\<lambda>apiError st'.
          updateOrder env (so_gid shopifyOrder)
            [bunjangOrderIdentifier env shopifyOrder @ ''_Error'',
             ''PID-'' @ pid @ ''-'' @ template (js_or (errorCode apiError) (Some ''UNKNOWN_ERROR''))]
            [] st')"

text \<open>
  The body of the loop for a resolved line item, with the outer \<open>try\<close> and
  \<open>catch\<close> (lines 107-213). \<open>Inr ()\<close> goes on to the next line item; \<open>Inl e\<close> is an
  error thrown out of the loop, which only the \<open>updateOrder\<close> of the outer
  \<open>catch\<close> can cause.
\<close>

definition processResolved ::
  "order_env \<Rightarrow> shopify_order \<Rightarrow> shopify_line \<Rightarrow> string \<Rightarrow> string option \<Rightarrow> orch_state
     \<Rightarrow> (js_error + unit) \<times> orch_state" where
  "processResolved env shopifyOrder item pid gid st =
     tryCatch
       (let reply = oe_getBunjangProductDetails env (os_log st) pid;
            st1 = record_event (GetBunjangProductDetails pid) st;
            errorTag = bunjangOrderIdentifier env shopifyOrder @ ''_Error''
        in case reply of
             Inl e \<Rightarrow> (Inl e, st1)
           | Inr None \<Rightarrow>
               updateOrder env (so_gid shopifyOrder)
                 [errorTag, ''PID-'' @ pid @ ''-NotFound''] [] st1
           | Inr (Some bunjangProductDetails) \<Rightarrow>
               (let productStatus = js_or (bd_status bunjangProductDetails)
                                      (bd_saleStatus bunjangProductDetails);
                    productQuantity = (case bd_quantity bunjangProductDetails of
                                         None \<Rightarrow> 0 | Some q \<Rightarrow> q)
                in if \<not> SKIP_STATUS_CHECK env \<and> productStatus \<noteq> Some ''SELLING'' then
                     updateOrder env (so_gid shopifyOrder)
                       [errorTag, ''PID-'' @ pid @ ''-NotSelling-'' @ template productStatus] [] st1
                   else if \<not> SKIP_STATUS_CHECK env \<and> productQuantity = 0 then
                     updateOrder env (so_gid shopifyOrder)
                       [errorTag, ''PID-'' @ pid @ ''-NoStock''] [] st1
                   else (case oe_mapPayloadThrows env item pid bunjangProductDetails of
                           Some e \<Rightarrow> (Inl e, st1)
                         | None \<Rightarrow>
                             createOrderAttempt env shopifyOrder pid gid
                               (Payload item pid bunjangProductDetails) st1)))
       (\<lambda>error st'.
          updateOrder env (so_gid shopifyOrder)
            [bunjangOrderIdentifier env shopifyOrder @ ''_Error'',
             ''PID-'' @ pid @ ''-Exception''] [] st')"

definition processLineItem ::
  "order_env \<Rightarrow> shopify_order \<Rightarrow> shopify_line \<Rightarrow> orch_state \<Rightarrow> (js_error + unit) \<times> orch_state" where
  "processLineItem env shopifyOrder item st =
     bindR (resolveSyncedProduct env (sl_product_id item) st) (\<lambda>syncedProduct st1.
       case syncedProduct of
         None \<Rightarrow> (Inr (), st1)
       | Some (pid, gid) \<Rightarrow>
           if pid = [] then (Inr (), st1)
           else processResolved env shopifyOrder item pid gid st1)"

fun processLineItems ::
  "order_env \<Rightarrow> shopify_order \<Rightarrow> shopify_line list \<Rightarrow> orch_state
     \<Rightarrow> (js_error + unit) \<times> orch_state" where
  "processLineItems env shopifyOrder [] st = (Inr (), st)"
| "processLineItems env shopifyOrder (item # items) st =
     bindR (processLineItem env shopifyOrder item st)
       (\<lambda>_ st'. processLineItems env shopifyOrder items st')"

text \<open>
  \<open>shopifyService.getOrderMetafield\<close> (shopifyService.js, lines 1473-1494), read
  for its \<open>value\<close>: the metafield of the storefront, or \<open>null\<close> when the request
  throws (the error is logged and swallowed).
\<close>

definition getOrderMetafield :: "order_env \<Rightarrow> order_event list \<Rightarrow> string \<Rightarrow> string option" where
  "getOrderMetafield env history orderId =
     (case oe_metafieldQueryThrows env history orderId of
        Some error \<Rightarrow> None
      | None \<Rightarrow> oe_orderIdsMetafield env history orderId)"

text \<open>
  The marker check (lines 37-46): the parsed ids when the metafield has a truthy
  value that \<open>JSON.parse\<close> accepts; otherwise (no metafield, no value, or a
  \<open>SyntaxError\<close>, which the \<open>catch\<close> logs) the order is processed.
\<close>

definition existingOrderIds :: "order_env \<Rightarrow> string option \<Rightarrow> string list option" where
  "existingOrderIds env existingMetafield =
     (case existingMetafield of
        None \<Rightarrow> None
      | Some v \<Rightarrow> if v = [] then None else oe_JSON_parse env v)"

definition orderPlacedUpdate ::
  "order_env \<Rightarrow> shopify_order \<Rightarrow> orch_state \<Rightarrow> (js_error + unit) \<times> orch_state" where
  "orderPlacedUpdate env shopifyOrder st =
     (if length (createdBunjangOrderIds st) > 0 then
        updateOrder env (so_gid shopifyOrder)
          [''BunjangOrderPlaced'', bunjangOrderIdentifier env shopifyOrder,
           ''Orders-'' @ natToString (length (createdBunjangOrderIds st))]
          [(''order_ids'', oe_JSON_stringify env (createdBunjangOrderIds st)),
           (''order_created_at'', oe_nowISO env),
           (''order_count'', natToString (length (createdBunjangOrderIds st)))]
          st
      else (Inr (), st))"

text \<open>
  \<open>processShopifyOrderForBunjang\<close> (lines 23-255), started with the log of what
  happened before; it returns its result, or the error it throws, and the log.
\<close>

definition processShopifyOrderForBunjang ::
  "order_env \<Rightarrow> shopify_order \<Rightarrow> order_event list \<Rightarrow> (js_error + order_result) \<times> order_event list" where
  "processShopifyOrderForBunjang env shopifyOrder history =
     (if so_id shopifyOrder = [] \<or> so_gid shopifyOrder = [] \<or> so_line_items shopifyOrder = [] then
        (Inl (JsError ''ValidationError'' None), history)
      else
        (let existingMetafield = getOrderMetafield env history (so_gid shopifyOrder);
             h1 = history @ [GetOrderMetafield (so_gid shopifyOrder) existingMetafield]
         in case existingOrderIds env existingMetafield of
              Some ids \<Rightarrow>
                (Inr \<lparr>res_success = True, res_alreadyProcessed = True,
                      res_bunjangOrderIds = ids, res_message = []\<rparr>, h1)
            | None \<Rightarrow>
                (case bindR (processLineItems env shopifyOrder (so_line_items shopifyOrder)
                               \<lparr>os_log = h1, createdBunjangOrderIds = [],
                                bunjangOrderSuccessfullyCreatedOverall = False\<rparr>)
                        (\<lambda>_ st. orderPlacedUpdate env shopifyOrder st) of
                   (Inl e, st) \<Rightarrow> (Inl e, os_log st)
                 | (Inr _, st) \<Rightarrow>
                     if bunjangOrderSuccessfullyCreatedOverall st then
                       (Inr \<lparr>res_success = True, res_alreadyProcessed = False,
                             res_bunjangOrderIds = createdBunjangOrderIds st,
                             res_message = []\<rparr>, os_log st)
                     else
                       (Inr \<lparr>res_success = False, res_alreadyProcessed = False,
                             res_bunjangOrderIds = [],
                             res_message = ''no Bunjang order was created''\<rparr>, os_log st))))"

section \<open>Sample data\<close>

text \<open>A ledger entry used in the worked examples.\<close>

definition sample_entry :: synced_product where
  "sample_entry =
     \<lparr>doc_id = 1, bunjangPid = ''342351629'', shopifyGid = Some ''gid://shopify/Product/7'',
      shopifyStatus = Some ACTIVE, bunjangQuantity = 1, lastInventorySyncAt = None,
      syncErrorMessage = None, processingStatus = Idle, processingStartedAt = None,
      processingJobId = None, processingLockExpiry = None, soldFrom = None, soldAt = None,
      shopifySoldAt = None, bunjangSoldAt = None, pendingBunjangOrder = False,
      bunjangOrderIds = [], createdAt = 0, updatedAt = 0\<rparr>"

text \<open>The update of the sweeper, named for the proofs.\<close>

definition sweep_set :: "int \<Rightarrow> synced_product \<Rightarrow> synced_product" where
  "sweep_set now d =
     d\<lparr>processingStatus := Failed,
       syncErrorMessage := Some ''Processing timeout - cleaned up by system'',
       updatedAt := now\<rparr>"

text \<open>
  A storefront order as the orchestrator leaves it when the source listing of its only
  line item was not found (orderService.js, lines 113-116): the error tag of the order
  and the tag \<open>PID-<pid>-NotFound\<close>, no downstream order id recorded. The
  collaborators of the cancellation engine accept every request.
\<close>

definition sample_notfound_order :: order_details where
  "sample_notfound_order =
     \<lparr>od_id = ''gid://shopify/Order/1003'', od_name = ''#1003'', od_cancelledAt = None,
      od_tags = [''BunjangOrder-1003_Error'', ''PID-111-NotFound''],
      od_lineItems =
        [\<lparr>li_id = ''L1'', li_title = ''a'', li_quantity = 1, li_sku = Some ''BJ-111''\<rparr>],
      od_metafield = None\<rparr>"

definition sample_cancel_env :: "order_details \<Rightarrow> cancel_env" where
  "sample_cancel_env order =
     \<lparr>ce_getOrderDetails = (\<lambda>i. Inr (if i = od_id order then Some order else None)),
      ce_orderCancel = (\<lambda>q. Inr \<lparr>cr_userErrors = [], cr_job = Some ''job-1''\<rparr>),
      ce_refundCreate = (\<lambda>q. Inr \<lparr>rr_userErrors = [], rr_refund = Some (''refund-1'', None)\<rparr>),
      ce_updateOrder = (\<lambda>q. None),
      ce_JSON_parse = (\<lambda>v. if v = ''[\"B2\",\"B3\"]'' then Some [''B2'', ''B3''] else None),
      cfg_notifyCustomer = True\<rparr>"

text \<open>
  Collaborators of the inventory service: one that answers every call, with a listing
  whose title already carries the sold-out mark, and one whose product update throws.
\<close>

definition calm_env :: inventory_env where
  "calm_env =
     \<lparr>ie_throws = (\<lambda>h c. None),
      ie_variants = (\<lambda>h g. InventoryItem ''gid://shopify/InventoryItem/70''),
      ie_product = (\<lambda>h g. Some \<lparr>sp_title = ''[SOLD OUT] Album'', sp_tags = [''kpop'']\<rparr>),
      BUNJANG_WAREHOUSE_GID = ''gid://shopify/Location/1''\<rparr>"

definition failing_update_env :: inventory_env where
  "failing_update_env =
     calm_env\<lparr>ie_throws := (\<lambda>h c. if is_UpdateProduct c
                                      then Some (JsError ''ExternalServiceError'' (Some ''SHOPIFY_PRODUCT_UPDATE_ERROR''))
                                      else None)\<rparr>"

text \<open>
  A storefront order of three line items for the orchestrator, the same order without
  its first line item, and collaborators that answer every call: each product is in the ledger, the source listing of the second
  one is not found, and an order creation for listing \<open>p\<close> returns the id
  \<open>B\<close>\<open>p\<close>. \<open>sample_stringify\<close> prints a list of ids as \<open>JSON.stringify\<close>
  prints strings without special characters.
\<close>

definition three_item_order :: shopify_order where
  "three_item_order =
     \<lparr>so_id = ''1001'', so_gid = ''gid://shopify/Order/1001'',
      so_line_items =
        [\<lparr>sl_id = ''L1'', sl_product_id = ''71''\<rparr>,
         \<lparr>sl_id = ''L2'', sl_product_id = ''72''\<rparr>,
         \<lparr>sl_id = ''L3'', sl_product_id = ''73''\<rparr>]\<rparr>"

definition notfound_first_order :: shopify_order where
  "notfound_first_order =
     three_item_order\<lparr>so_line_items := [\<lparr>sl_id = ''L2'', sl_product_id = ''72''\<rparr>,
                                         \<lparr>sl_id = ''L3'', sl_product_id = ''73''\<rparr>]\<rparr>"

definition selling_details :: bunjang_details where
  "selling_details = \<lparr>bd_status = Some ''SELLING'', bd_saleStatus = None, bd_quantity = Some 1\<rparr>"

fun sample_stringify_items :: "string list \<Rightarrow> string" where
  "sample_stringify_items [] = []"
| "sample_stringify_items [i] = ''\"'' @ i @ ''\"''"
| "sample_stringify_items (i # rest) = ''\"'' @ i @ ''\",'' @ sample_stringify_items rest"

definition sample_stringify :: "string list \<Rightarrow> string" where
  "sample_stringify ids = ''['' @ sample_stringify_items ids @ '']''"

definition partial_env :: order_env where
  "partial_env =
     \<lparr>oe_orderIdsMetafield = (\<lambda>h g. None),
      oe_metafieldQueryThrows = (\<lambda>h g. None),
      oe_findSyncedProduct =
        (\<lambda>h p. Inr (if p = ''71'' then Some (''111'', Some ''gid://shopify/Product/71'')
                     else if p = ''72'' then Some (''222'', Some ''gid://shopify/Product/72'')
                     else if p = ''73'' then Some (''333'', Some ''gid://shopify/Product/73'')
                     else None)),
      oe_productTags = (\<lambda>h g. Inr None),
      oe_getBunjangProductDetails = (\<lambda>h pid. Inr (if pid = ''222'' then None else Some selling_details)),
      oe_updateOrder = (\<lambda>h g tags metafields. None),
      oe_mapPayloadThrows = (\<lambda>item pid details. None),
      oe_createBunjangOrderV2 = (\<lambda>h p. case p of Payload item pid details \<Rightarrow> Inr (Some (''B'' @ pid))),
      oe_getBunjangPointBalance = (\<lambda>h. Inr None),
      oe_handleProductSoldStatus = (\<lambda>h pid gid. None),
      oe_JSON_parse = (\<lambda>v. if v = ''[\"B111\",\"B333\"]'' then Some [''B111'', ''B333''] else None),
      oe_JSON_stringify = sample_stringify,
      oe_nowISO = ''2024-01-01T00:00:00.000Z'',
      cfg_orderIdentifierPrefix = None,
      cfg_lowBalanceThreshold = None,
      SKIP_STATUS_CHECK = False\<rparr>"

text \<open>
  Variations: the storefront holds the marker of an earlier run and answers the read;
  it holds the marker but the read throws (an order creation for listing \<open>p\<close> then
  returns the new id \<open>C\<close>\<open>p\<close>); it holds a value that is not JSON; and it
  refuses every order update.
\<close>

definition marked_env :: order_env where
  "marked_env = partial_env\<lparr>oe_orderIdsMetafield := (\<lambda>h g. Some ''[\"B111\",\"B333\"]'')\<rparr>"

definition unread_marker_env :: order_env where
  "unread_marker_env =
     marked_env\<lparr>oe_metafieldQueryThrows :=
                   (\<lambda>h g. Some (JsError ''ExternalServiceError'' (Some ''SHOPIFY_GRAPHQL_ERROR''))),
                 oe_createBunjangOrderV2 :=
                   (\<lambda>h p. case p of Payload item pid details \<Rightarrow> Inr (Some (''C'' @ pid)))\<rparr>"

definition unparsed_marker_env :: order_env where
  "unparsed_marker_env = partial_env\<lparr>oe_orderIdsMetafield := (\<lambda>h g. Some ''B111'')\<rparr>"

definition refusing_env :: order_env where
  "refusing_env =
     partial_env\<lparr>oe_updateOrder :=
                    (\<lambda>h g tags metafields.
                       Some (JsError ''ExternalServiceError'' (Some ''SHOPIFY_ORDER_UPDATE_ERROR'')))\<rparr>"

section \<open>Notions used in the statements and proofs\<close>

text \<open>
  The outcome of a run against the calls it logged: a run that returns has logged only
  calls that returned; a run that throws \<open>e\<close> has logged calls that returned and,
  last, the call that threw \<open>e\<close>.
\<close>

fun ends_with_throw :: "js_error \<Rightarrow> inventory_event list \<Rightarrow> bool" where
  "ends_with_throw e [] = False"
| "ends_with_throw e [ev] = (snd ev = Some e)"
| "ends_with_throw e (ev # evs) = (snd ev = None \<and> ends_with_throw e evs)"

definition trace_ok :: "inventory_event list \<Rightarrow> (js_error + 'a) \<Rightarrow> inventory_event list \<Rightarrow> bool" where
  "trace_ok l r l' =
     (\<exists>new. l' = l @ new \<and>
        (case r of
           Inr a \<Rightarrow> list_all (\<lambda>ev. snd ev = None) new
         | Inl e \<Rightarrow> ends_with_throw e new))"

text \<open>The fields that the inventory sync never writes.\<close>

definition sale_fields :: "synced_product \<Rightarrow> synced_product" where
  "sale_fields d = d\<lparr>bunjangQuantity := 0, lastInventorySyncAt := None, updatedAt := 0\<rparr>"

text \<open>
  The downstream orders created by the calls of a log of the orchestrator: the ids
  that \<open>createBunjangOrderV2\<close> returned.
\<close>

fun created_in :: "order_event list \<Rightarrow> string list" where
  "created_in [] = []"
| "created_in (CreateBunjangOrderV2 p (Inr (Some i)) # evs) = i # created_in evs"
| "created_in (ev # evs) = created_in evs"

text \<open>
  A step of the orchestrator extends the log; it appends to
  \<open>createdBunjangOrderIds\<close> exactly the ids of the orders its calls created, and
  raises the flag when there is one. A quiet step creates no order.
\<close>

definition step_ok :: "orch_state \<Rightarrow> orch_state \<Rightarrow> bool" where
  "step_ok st st' =
     (\<exists>new. os_log st' = os_log st @ new \<and>
        createdBunjangOrderIds st' = createdBunjangOrderIds st @ created_in new \<and>
        bunjangOrderSuccessfullyCreatedOverall st' =
          (bunjangOrderSuccessfullyCreatedOverall st \<or> created_in new \<noteq> []))"

definition quiet :: "orch_state \<Rightarrow> orch_state \<Rightarrow> bool" where
  "quiet st st' =
     (\<exists>new. os_log st' = os_log st @ new \<and> created_in new = [] \<and>
        createdBunjangOrderIds st' = createdBunjangOrderIds st \<and>
        bunjangOrderSuccessfullyCreatedOverall st' = bunjangOrderSuccessfullyCreatedOverall st)"

section \<open>Properties of the ledger\<close>

lemma findOneAndUpdate_None:
  "findOneAndUpdate flt upd db = (None, db') \<Longrightarrow> db' = db \<and> (\<forall>d \<in> set db. \<not> flt d)"
  by (induction db arbitrary: db') (auto split: if_splits prod.splits)

lemma findOneAndUpdate_Some:
  "findOneAndUpdate flt upd db = (Some e, db') \<Longrightarrow>
     \<exists>xs d ys. db = xs @ d # ys \<and> db' = xs @ e # ys \<and> (\<forall>x \<in> set xs. \<not> flt x) \<and> flt d \<and> e = upd d"
proof (induction db arbitrary: db')
  case Nil
  then show ?case by simp
next
  case (Cons a db)
  show ?case
  proof (cases "flt a")
    case True
    with Cons.prems have "e = upd a" "db' = upd a # db" by auto
    with True show ?thesis by (intro exI[of _ "[]"] exI[of _ a] exI[of _ db]) simp
  next
    case False
    with Cons.prems obtain ds' where r: "findOneAndUpdate flt upd db = (Some e, ds')" and d: "db' = a # ds'"
      by (auto split: prod.splits)
    from Cons.IH[OF r] obtain xs d ys where
      "db = xs @ d # ys" "ds' = xs @ e # ys" "\<forall>x \<in> set xs. \<not> flt x" "flt d" "e = upd d"
      by blast
    with False d show ?thesis
      by (intro exI[of _ "a # xs"] exI[of _ d] exI[of _ ys]) simp
  qed
qed

text \<open>
  Claim C1. \<open>acquireLock\<close> returns a ledger entry only when the entry it found for
  the product key carries no valid lock: its \<open>processingStatus\<close> is not
  \<open>processing\<close>, or its stored \<open>processingLockExpiry\<close> lies in the past (so
  \<open>isLocked\<close> is false of it). On success the one conditional update has set
  \<open>processingStatus\<close> to \<open>processing\<close>, \<open>processingJobId\<close> to the job and
  \<open>processingLockExpiry\<close> to \<open>now + ttl\<close> (as well as \<open>processingStartedAt\<close> and
  the timestamp), on that entry and on no other. It returns \<open>null\<close> otherwise, and then
  the ledger is unchanged and every entry of the key is \<open>processing\<close> with an expiry
  that is absent or not yet past.
\<close>

theorem acquireLock_result:
  assumes "acquireLock pid jobId ttl now db = (r, db')"
  shows "case r of
           None \<Rightarrow> db' = db \<and>
                    (\<forall>d \<in> set db. bunjangPid d = pid \<longrightarrow>
                       processingStatus d = Processing \<and>
                       \<not> (\<exists>t. processingLockExpiry d = Some t \<and> t < now))
         | Some e \<Rightarrow>
             (\<exists>xs d ys. db = xs @ d # ys \<and> db' = xs @ e # ys \<and>
                bunjangPid d = pid \<and>
                (processingStatus d \<noteq> Processing \<or>
                 (\<exists>t. processingLockExpiry d = Some t \<and> t < now)) \<and>
                \<not> isLocked now d \<and>
                e = d\<lparr>processingStatus := Processing,
                      processingStartedAt := Some now,
                      processingJobId := Some jobId,
                      processingLockExpiry := Some (now + ttl),
                      updatedAt := now\<rparr>)"
proof (cases r)
  case None
  with assms have "findOneAndUpdate (acquireLock_filter pid now) (acquireLock_set jobId ttl now) db = (None, db')"
    by (simp add: acquireLock_def)
  from findOneAndUpdate_None[OF this]
  have "db' = db" and "\<forall>d \<in> set db. \<not> acquireLock_filter pid now d"
    by simp_all
  with None show ?thesis
    by (auto simp: acquireLock_filter_def lt_date_def)
next
  case (Some e)
  with assms have "findOneAndUpdate (acquireLock_filter pid now) (acquireLock_set jobId ttl now) db = (Some e, db')"
    by (simp add: acquireLock_def)
  from findOneAndUpdate_Some[OF this] obtain xs d ys where
    *: "db = xs @ d # ys" "db' = xs @ e # ys" "acquireLock_filter pid now d"
       "e = acquireLock_set jobId ttl now d"
    by blast
  from *(3) have "bunjangPid d = pid"
    and c: "processingStatus d \<noteq> Processing \<or> (\<exists>t. processingLockExpiry d = Some t \<and> t < now)"
    by (auto simp: acquireLock_filter_def lt_date_def split: option.splits)
  moreover from c have "\<not> isLocked now d"
    by (auto simp: isLocked_def)
  ultimately show ?thesis using * Some
    by (auto simp: acquireLock_set_def)
qed

theorem acquireLock_result_witness:
  "acquireLock ''342351629'' ''job-1'' 60000 5000
       [sample_entry\<lparr>processingStatus := Processing, processingLockExpiry := Some 4000\<rparr>]
     = (Some (sample_entry\<lparr>processingStatus := Processing, processingStartedAt := Some 5000,
                processingJobId := Some ''job-1'', processingLockExpiry := Some 65000,
                updatedAt := 5000\<rparr>),
        [sample_entry\<lparr>processingStatus := Processing, processingStartedAt := Some 5000,
                processingJobId := Some ''job-1'', processingLockExpiry := Some 65000,
                updatedAt := 5000\<rparr>])
   \<and> acquireLock ''342351629'' ''job-2'' 60000 5000
       [sample_entry\<lparr>processingStatus := Processing, processingLockExpiry := Some 9000\<rparr>]
     = (None, [sample_entry\<lparr>processingStatus := Processing, processingLockExpiry := Some 9000\<rparr>])
   \<and> \<not> isLocked 5000 (sample_entry\<lparr>processingStatus := Processing, processingLockExpiry := Some 4000\<rparr>)
   \<and> isLocked 5000 (sample_entry\<lparr>processingStatus := Processing, processingLockExpiry := Some 9000\<rparr>)"
proof -
  let ?d = "sample_entry\<lparr>processingStatus := Processing, processingLockExpiry := Some 4000\<rparr>"
  let ?l = "sample_entry\<lparr>processingStatus := Processing, processingLockExpiry := Some 9000\<rparr>"
  obtain r db' where a: "acquireLock ''342351629'' ''job-1'' 60000 5000 [?d] = (r, db')"
    by (cases "acquireLock ''342351629'' ''job-1'' 60000 5000 [?d]")
  have b: "acquireLock ''342351629'' ''job-2'' 60000 5000 [?l] = (None, [?l])"
    by (simp add: acquireLock_def acquireLock_filter_def lt_date_def sample_entry_def)
  from acquireLock_result[OF b] have "processingStatus ?l = Processing" by simp
  moreover from a acquireLock_result[OF a]
  have "acquireLock ''342351629'' ''job-1'' 60000 5000 [?d]
     = (Some (sample_entry\<lparr>processingStatus := Processing, processingStartedAt := Some 5000,
                processingJobId := Some ''job-1'', processingLockExpiry := Some 65000,
                updatedAt := 5000\<rparr>),
        [sample_entry\<lparr>processingStatus := Processing, processingStartedAt := Some 5000,
                processingJobId := Some ''job-1'', processingLockExpiry := Some 65000,
                updatedAt := 5000\<rparr>])"
    by (simp add: acquireLock_def acquireLock_filter_def acquireLock_set_def lt_date_def sample_entry_def)
  ultimately show ?thesis using b
    by (simp add: isLocked_def sample_entry_def)
qed

lemma stuck_filter_sweep_set: "\<not> stuck_filter t now (sweep_set now' d)"
  by (simp add: stuck_filter_def sweep_set_def)

lemma cleanupStuckProcessing_map:
  "cleanupStuckProcessing t now db = map (\<lambda>d. if stuck_filter t now d then sweep_set now d else d) db"
  by (simp add: cleanupStuckProcessing_def updateMany_def sweep_set_def)

text \<open>
  Claim C6 as stated fails: the sweeper selects by \<open>processingStartedAt\<close> and never
  reads \<open>processingLockExpiry\<close>. With a timeout of 30 minutes, an entry that started
  2000 seconds ago under a lock that is still valid is swept, and an entry whose lock
  expired 40 seconds ago but that started 100 seconds ago is left \<open>processing\<close>.
\<close>

theorem cleanupStuckProcessing_counterexample:
  "isLocked 2000000
     (sample_entry\<lparr>processingStatus := Processing, processingStartedAt := Some 0,
                    processingLockExpiry := Some 9000000\<rparr>)
   \<and> cleanupStuckProcessing 1800000 2000000
       [sample_entry\<lparr>processingStatus := Processing, processingStartedAt := Some 0,
                      processingLockExpiry := Some 9000000\<rparr>]
     = [sample_entry\<lparr>processingStatus := Failed, processingStartedAt := Some 0,
                      processingLockExpiry := Some 9000000,
                      syncErrorMessage := Some ''Processing timeout - cleaned up by system'',
                      updatedAt := 2000000\<rparr>]
   \<and> \<not> isLocked 2000000
       (sample_entry\<lparr>processingStatus := Processing, processingStartedAt := Some 1900000,
                      processingLockExpiry := Some 1960000\<rparr>)
   \<and> cleanupStuckProcessing 1800000 2000000
       [sample_entry\<lparr>processingStatus := Processing, processingStartedAt := Some 1900000,
                      processingLockExpiry := Some 1960000\<rparr>]
     = [sample_entry\<lparr>processingStatus := Processing, processingStartedAt := Some 1900000,
                      processingLockExpiry := Some 1960000\<rparr>]"
  by (simp add: isLocked_def cleanupStuckProcessing_def updateMany_def stuck_filter_def
        lt_date_def sample_entry_def)

text \<open>
  Claim C6, amended. At a fixed clock reading the sweeper is idempotent, and it
  force-transitions to \<open>failed\<close>, with the explanatory message, exactly the entries with
  \<open>processingStatus = processing\<close> whose \<open>processingStartedAt\<close> is earlier than
  \<open>now - timeout\<close>; every other entry is left as it is. It leaves a lock that is still
  valid alone whenever that lock expires no later than \<open>processingStartedAt + timeout\<close>.
\<close>

theorem cleanupStuckProcessing_amended:
  "cleanupStuckProcessing t now (cleanupStuckProcessing t now db) = cleanupStuckProcessing t now db
   \<and> length (cleanupStuckProcessing t now db) = length db
   \<and> (\<forall>i < length db.
        cleanupStuckProcessing t now db ! i =
          (if processingStatus (db ! i) = Processing \<and>
              (\<exists>s. processingStartedAt (db ! i) = Some s \<and> s < now - t)
           then (db ! i)\<lparr>processingStatus := Failed,
                          syncErrorMessage := Some ''Processing timeout - cleaned up by system'',
                          updatedAt := now\<rparr>
           else db ! i))
   \<and> (\<forall>i < length db. \<forall>s x.
        processingStartedAt (db ! i) = Some s \<and> processingLockExpiry (db ! i) = Some x \<and>
        x \<le> s + t \<and> now < x \<longrightarrow> cleanupStuckProcessing t now db ! i = db ! i)"
proof (intro conjI)
  show "cleanupStuckProcessing t now (cleanupStuckProcessing t now db) = cleanupStuckProcessing t now db"
    by (simp add: cleanupStuckProcessing_map stuck_filter_sweep_set)
  show "length (cleanupStuckProcessing t now db) = length db"
    by (simp add: cleanupStuckProcessing_map)
  show "\<forall>i < length db.
        cleanupStuckProcessing t now db ! i =
          (if processingStatus (db ! i) = Processing \<and>
              (\<exists>s. processingStartedAt (db ! i) = Some s \<and> s < now - t)
           then (db ! i)\<lparr>processingStatus := Failed,
                          syncErrorMessage := Some ''Processing timeout - cleaned up by system'',
                          updatedAt := now\<rparr>
           else db ! i)"
    by (auto simp: cleanupStuckProcessing_map stuck_filter_def lt_date_def sweep_set_def
          split: option.splits)
  show "\<forall>i < length db. \<forall>s x.
        processingStartedAt (db ! i) = Some s \<and> processingLockExpiry (db ! i) = Some x \<and>
        x \<le> s + t \<and> now < x \<longrightarrow> cleanupStuckProcessing t now db ! i = db ! i"
    by (auto simp: cleanupStuckProcessing_map stuck_filter_def lt_date_def)
qed

theorem cleanupStuckProcessing_amended_witness:
  "cleanupStuckProcessing 1800000 2000000
       [sample_entry\<lparr>processingStatus := Processing, processingStartedAt := Some 0\<rparr>,
        sample_entry\<lparr>doc_id := 2, processingStatus := Processing,
                      processingStartedAt := Some 1990000, processingLockExpiry := Some 2050000\<rparr>] ! 0
     = sample_entry\<lparr>processingStatus := Failed, processingStartedAt := Some 0,
                     syncErrorMessage := Some ''Processing timeout - cleaned up by system'',
                     updatedAt := 2000000\<rparr>
   \<and> cleanupStuckProcessing 1800000 2000000
       [sample_entry\<lparr>processingStatus := Processing, processingStartedAt := Some 0\<rparr>,
        sample_entry\<lparr>doc_id := 2, processingStatus := Processing,
                      processingStartedAt := Some 1990000, processingLockExpiry := Some 2050000\<rparr>] ! 1
     = sample_entry\<lparr>doc_id := 2, processingStatus := Processing,
                     processingStartedAt := Some 1990000, processingLockExpiry := Some 2050000\<rparr>"
proof -
  let ?db = "[sample_entry\<lparr>processingStatus := Processing, processingStartedAt := Some 0\<rparr>,
        sample_entry\<lparr>doc_id := 2, processingStatus := Processing,
                      processingStartedAt := Some 1990000, processingLockExpiry := Some 2050000\<rparr>]"
  from cleanupStuckProcessing_amended[of 1800000 2000000 ?db]
  have a: "\<forall>i < length ?db.
        cleanupStuckProcessing 1800000 2000000 ?db ! i =
          (if processingStatus (?db ! i) = Processing \<and>
              (\<exists>s. processingStartedAt (?db ! i) = Some s \<and> s < 2000000 - 1800000)
           then (?db ! i)\<lparr>processingStatus := Failed,
                          syncErrorMessage := Some ''Processing timeout - cleaned up by system'',
                          updatedAt := 2000000\<rparr>
           else ?db ! i)"
    and b: "\<forall>i < length ?db. \<forall>s x.
        processingStartedAt (?db ! i) = Some s \<and> processingLockExpiry (?db ! i) = Some x \<and>
        x \<le> s + 1800000 \<and> 2000000 < x \<longrightarrow> cleanupStuckProcessing 1800000 2000000 ?db ! i = ?db ! i"
    by blast+
  from a have "cleanupStuckProcessing 1800000 2000000 ?db ! 0
     = sample_entry\<lparr>processingStatus := Failed, processingStartedAt := Some 0,
                     syncErrorMessage := Some ''Processing timeout - cleaned up by system'',
                     updatedAt := 2000000\<rparr>"
    by (simp add: sample_entry_def)
  moreover from b have "cleanupStuckProcessing 1800000 2000000 ?db ! 1 = ?db ! 1"
    by (simp add: sample_entry_def)
  ultimately show ?thesis by simp
qed

text \<open>
  Claim C9 on the code: of three rows with the same \<open>bunjangPid\<close>, scanned in the
  order of their creation, \<open>findAndRemoveDuplicates\<close> keeps the first, which is the
  least recently updated, and deletes the row updated last.
\<close>

theorem findAndRemoveDuplicates_keeps_first:
  "findAndRemoveDuplicates
     [sample_entry\<lparr>doc_id := 1, createdAt := 100, updatedAt := 100\<rparr>,
      sample_entry\<lparr>doc_id := 2, createdAt := 200, updatedAt := 900\<rparr>,
      sample_entry\<lparr>doc_id := 3, createdAt := 300, updatedAt := 500\<rparr>]
   = [sample_entry\<lparr>doc_id := 1, createdAt := 100, updatedAt := 100\<rparr>]"
  by (simp add: findAndRemoveDuplicates_def aggregate_duplicates_def deleteMany_in_def
        sample_entry_def)

section \<open>Properties of the error-tag check\<close>

lemma matches_some_pattern_iff:
  "matches_some_pattern ps tag \<longleftrightarrow> (\<exists>p \<in> set ps. regex_test p tag)"
  by (induction ps) auto

lemma some_pushing_find:
  "some_pushing tags errors =
     (case find (matches_some_pattern errorTagPatterns) tags of
        None \<Rightarrow> (False, errors)
      | Some tag \<Rightarrow> (True, errors @ [tag]))"
  by (induction tags) auto

lemma checkBunjangOrderErrors_find:
  "checkBunjangOrderErrors tags =
     (case find (matches_some_pattern errorTagPatterns) tags of
        None \<Rightarrow> \<lparr>hasError = False, errorTypes = []\<rparr>
      | Some tag \<Rightarrow> \<lparr>hasError = True, errorTypes = [tag]\<rparr>)"
  by (simp add: checkBunjangOrderErrors_def some_pushing_find split: option.splits)

text \<open>
  Claim C10. \<open>checkBunjangOrderErrors\<close> reports \<open>hasError\<close> exactly when some tag
  matches one of the configured patterns, and \<open>errorTypes\<close> holds at most one element,
  the first matching tag in array order, however many tags match. The order-update hook
  therefore decides urgency, and the delay, from that first matching new tag alone.
\<close>

theorem checkBunjangOrderErrors_first_match:
  "hasError (checkBunjangOrderErrors tags) =
     (\<exists>tag \<in> set tags. \<exists>pattern \<in> set errorTagPatterns. regex_test pattern tag)
   \<and> errorTypes (checkBunjangOrderErrors tags) =
     (case find (\<lambda>tag. \<exists>pattern \<in> set errorTagPatterns. regex_test pattern tag) tags of
        None \<Rightarrow> []
      | Some tag \<Rightarrow> [tag])
   \<and> length (errorTypes (checkBunjangOrderErrors tags)) \<le> 1
   \<and> (case handleOrderUpdate orderId tags previousTags of
        None \<Rightarrow>
          find (\<lambda>tag. \<exists>pattern \<in> set errorTagPatterns. regex_test pattern tag)
            (filter (\<lambda>tag. tag \<notin> set previousTags) tags) = None
      | Some job \<Rightarrow>
          (\<exists>first.
             find (\<lambda>tag. \<exists>pattern \<in> set errorTagPatterns. regex_test pattern tag)
               (filter (\<lambda>tag. tag \<notin> set previousTags) tags) = Some first \<and>
             sc_errorTypes job = [first] \<and>
             sc_isUrgent job = isUrgentTag first \<and>
             sc_delay job = (if isUrgentTag first then 0 else 60000)))"
proof -
  have eq: "(\<lambda>tag. \<exists>pattern \<in> set errorTagPatterns. regex_test pattern tag) =
            matches_some_pattern errorTagPatterns"
    by (simp add: fun_eq_iff matches_some_pattern_iff)
  have 1: "hasError (checkBunjangOrderErrors tags) =
     (\<exists>tag \<in> set tags. \<exists>pattern \<in> set errorTagPatterns. regex_test pattern tag)"
  proof -
    have "hasError (checkBunjangOrderErrors tags) =
            (find (matches_some_pattern errorTagPatterns) tags \<noteq> None)"
      by (simp add: checkBunjangOrderErrors_find split: option.splits)
    also have "\<dots> = (\<exists>tag \<in> set tags. matches_some_pattern errorTagPatterns tag)"
      by (auto simp: find_None_iff)
    finally show ?thesis by (simp add: matches_some_pattern_iff)
  qed
  have 2: "errorTypes (checkBunjangOrderErrors tags) =
     (case find (\<lambda>tag. \<exists>pattern \<in> set errorTagPatterns. regex_test pattern tag) tags of
        None \<Rightarrow> []
      | Some tag \<Rightarrow> [tag])"
    unfolding eq checkBunjangOrderErrors_find by (simp split: option.splits)
  have 3: "length (errorTypes (checkBunjangOrderErrors tags)) \<le> 1"
    unfolding checkBunjangOrderErrors_find by (simp split: option.splits)
  have 4: "(case handleOrderUpdate orderId tags previousTags of
        None \<Rightarrow>
          find (\<lambda>tag. \<exists>pattern \<in> set errorTagPatterns. regex_test pattern tag)
            (filter (\<lambda>tag. tag \<notin> set previousTags) tags) = None
      | Some job \<Rightarrow>
          (\<exists>first.
             find (\<lambda>tag. \<exists>pattern \<in> set errorTagPatterns. regex_test pattern tag)
               (filter (\<lambda>tag. tag \<notin> set previousTags) tags) = Some first \<and>
             sc_errorTypes job = [first] \<and>
             sc_isUrgent job = isUrgentTag first \<and>
             sc_delay job = (if isUrgentTag first then 0 else 60000)))"
    unfolding eq handleOrderUpdate_def checkBunjangOrderErrors_find
    by (auto simp: Let_def split: option.splits)
  from 1 2 3 4 show ?thesis by blast
qed

theorem checkBunjangOrderErrors_first_match_witness:
  "checkBunjangOrderErrors
       [''BunjangOrderPlaced'', ''PID-1-NotFound'', ''URGENT-InsufficientPoints'']
     = \<lparr>hasError = True, errorTypes = [''PID-1-NotFound'']\<rparr>
   \<and> handleOrderUpdate ''gid://shopify/Order/1''
       [''BunjangOrderPlaced'', ''PID-1-NotFound'', ''URGENT-InsufficientPoints'']
       [''BunjangOrderPlaced'']
     = Some \<lparr>sc_orderId = ''gid://shopify/Order/1'', sc_errorTypes = [''PID-1-NotFound''],
             sc_isUrgent = False, sc_delay = 60000\<rparr>
   \<and> isUrgentTag ''URGENT-InsufficientPoints''"
proof -
  let ?tags = "[''BunjangOrderPlaced'', ''PID-1-NotFound'', ''URGENT-InsufficientPoints'']"
  have m: "find (\<lambda>tag. \<exists>pattern \<in> set errorTagPatterns. regex_test pattern tag) ?tags
             = Some ''PID-1-NotFound''"
    by (simp add: errorTagPatterns_def regex_test_def globToRegex_def isLineTerminator_def)
  from checkBunjangOrderErrors_first_match[where tags = ?tags and orderId = "''gid://shopify/Order/1''"
      and previousTags = "[''BunjangOrderPlaced'']"]
  have "errorTypes (checkBunjangOrderErrors ?tags) = [''PID-1-NotFound'']"
    and "hasError (checkBunjangOrderErrors ?tags)"
    unfolding m by (simp_all add: errorTagPatterns_def regex_test_def globToRegex_def isLineTerminator_def)
  then have "checkBunjangOrderErrors ?tags = \<lparr>hasError = True, errorTypes = [''PID-1-NotFound'']\<rparr>"
    by (cases "checkBunjangOrderErrors ?tags") simp
  moreover have "handleOrderUpdate ''gid://shopify/Order/1'' ?tags [''BunjangOrderPlaced'']
     = Some \<lparr>sc_orderId = ''gid://shopify/Order/1'', sc_errorTypes = [''PID-1-NotFound''],
             sc_isUrgent = False, sc_delay = 60000\<rparr>"
    by (simp add: handleOrderUpdate_def isUrgentTag_def checkBunjangOrderErrors_def
          errorTagPatterns_def regex_test_def globToRegex_def isLineTerminator_def)
  moreover have "isUrgentTag ''URGENT-InsufficientPoints''"
    by (simp add: isUrgentTag_def)
  ultimately show ?thesis by simp
qed

section \<open>Properties of the cancellation decision\<close>

text \<open>
  Claim C3, a failing input. The order \<open>#1003\<close> is not cancelled, its only line item
  (SKU \<open>BJ-111\<close>) failed, and its tags are the ones the orchestrator writes for a
  listing that was not found. The error check of the engine recognises the order
  (\<open>PID-*-NotFound\<close> is one of its own error patterns), but the partition asks for a
  tag that contains both \<open>PID-111-\<close> and \<open>Error\<close>, finds no failed line item,
  and the engine answers \<open>NO_FAILED_ITEMS\<close> without sending any request: the order,
  all of whose line items failed, is neither cancelled nor refunded.
\<close>

theorem notfound_order_is_not_cancelled:
  "hasError (checkBunjangOrderErrors (od_tags sample_notfound_order))
   \<and> matches_some_pattern errorTagPatterns ''PID-111-NotFound''
   \<and> \<not> hasErrorTag (od_tags sample_notfound_order)
         \<lparr>li_id = ''L1'', li_title = ''a'', li_quantity = 1, li_sku = Some ''BJ-111''\<rparr>
   \<and> failedLineItems sample_notfound_order = []
   \<and> processCancellationForOrder (sample_cancel_env sample_notfound_order)
         ''gid://shopify/Order/1003'' \<lparr>opt_notifyCustomer = None, opt_autoRefund = None\<rparr>
       = (Inr NoFailedItems, [])"
proof -
  have e: "hasError (checkBunjangOrderErrors (od_tags sample_notfound_order))"
    by (simp add: sample_notfound_order_def checkBunjangOrderErrors_def
          errorTagPatterns_def regex_test_def globToRegex_def isLineTerminator_def)
  have m: "matches_some_pattern errorTagPatterns ''PID-111-NotFound''"
    by (simp add: errorTagPatterns_def regex_test_def globToRegex_def isLineTerminator_def)
  have t: "\<not> hasErrorTag (od_tags sample_notfound_order)
         \<lparr>li_id = ''L1'', li_title = ''a'', li_quantity = 1, li_sku = Some ''BJ-111''\<rparr>"
    by (simp add: hasErrorTag_def sample_notfound_order_def)
  have f: "failedLineItems sample_notfound_order = []"
    by (simp add: failedLineItems_def sample_notfound_order_def isBunjangItem_def hasErrorTag_def)
  have g: "ce_getOrderDetails (sample_cancel_env sample_notfound_order) ''gid://shopify/Order/1003''
             = Inr (Some sample_notfound_order)"
      "od_cancelledAt sample_notfound_order = None"
    by (simp_all add: sample_cancel_env_def sample_notfound_order_def)
  have p: "parsedOrderIds (sample_cancel_env sample_notfound_order) sample_notfound_order = Some []"
    by (simp add: parsedOrderIds_def sample_notfound_order_def)
  have r: "processCancellationForOrder (sample_cancel_env sample_notfound_order)
         ''gid://shopify/Order/1003'' \<lparr>opt_notifyCustomer = None, opt_autoRefund = None\<rparr>
       = (Inr NoFailedItems, [])"
    by (simp add: processCancellationForOrder_def Let_def g e p f successfulLineItems_def)
  from e m t f r show ?thesis by simp
qed
section \<open>Properties of the sold-status handler\<close>

lemma findOneAndUpdate_map:
  "(\<And>d. g (upd d) = g d) \<Longrightarrow> map g (snd (findOneAndUpdate flt upd db)) = map g db"
  by (induction db) (auto split: prod.splits)

lemma updateOne_sale_fields:
  "map sale_fields (updateOne pid (\<lambda>d. d\<lparr>bunjangQuantity := q, lastInventorySyncAt := t, updatedAt := u\<rparr>) db)
     = map sale_fields db"
  unfolding updateOne_def by (rule findOneAndUpdate_map) (simp add: sale_fields_def)

lemma sync_result:
  assumes "syncBunjangInventoryToShopify env now pid q st = (r, st')"
  shows "trace_ok (st_calls st) r (st_calls st')"
    and "map sale_fields (st_ledger st') = map sale_fields (st_ledger st)"
  using assms
  unfolding syncBunjangInventoryToShopify_def bindR_def invoke_def Let_def trace_ok_def
  by (auto simp: updateOne_sale_fields split: option.splits variants_reply.splits if_splits)


lemma ends_with_throw_append:
  "list_all (\<lambda>ev. snd ev = None) n1 \<Longrightarrow> ends_with_throw e n2 \<Longrightarrow> ends_with_throw e (n1 @ n2)"
proof (induction n1)
  case Nil
  then show ?case by simp
next
  case (Cons a n1)
  then have "ends_with_throw e (n1 @ n2)" by simp
  moreover from this have "n1 @ n2 \<noteq> []" by auto
  ultimately show ?case using Cons.prems(1)
    by (cases "n1 @ n2") auto
qed

lemma trace_ok_step:
  assumes "trace_ok l (Inr a) l1" and "trace_ok l1 r l2"
  shows "trace_ok l r l2"
proof -
  from assms(1) obtain n1 where n1: "l1 = l @ n1" "list_all (\<lambda>ev. snd ev = None) n1"
    by (auto simp: trace_ok_def)
  from assms(2) obtain n2 where n2: "l2 = l1 @ n2"
    and c: "case r of Inr a \<Rightarrow> list_all (\<lambda>ev. snd ev = None) n2 | Inl e \<Rightarrow> ends_with_throw e n2"
    by (auto simp: trace_ok_def)
  from n1 n2 c show ?thesis
    unfolding trace_ok_def
    by (intro exI[of _ "n1 @ n2"]) (auto split: sum.splits intro: ends_with_throw_append)
qed

lemma trace_ok_Inr_any: "trace_ok l (Inr a :: js_error + 'a) l' \<Longrightarrow> trace_ok l (Inr b :: js_error + 'b) l'"
  by (simp add: trace_ok_def)

lemma trace_ok_Inl_any: "trace_ok l (Inl e :: js_error + 'a) l' \<Longrightarrow> trace_ok l (Inl e :: js_error + 'b) l'"
  by (simp add: trace_ok_def)

lemma bindR_cases:
  assumes "bindR m f = (r, s')"
  obtains (throws) e where "m = (Inl e, s')" "r = Inl e"
        | (returns) a s1 where "m = (Inr a, s1)" "f a s1 = (r, s')"
  using assms by (auto simp: bindR_def split: prod.splits sum.splits)

lemma markProductAsSoldOut_result:
  assumes "markProductAsSoldOut env now gid pid st = (r, st')"
  shows "trace_ok (st_calls st) r (st_calls st')"
    and "map sale_fields (st_ledger st') = map sale_fields (st_ledger st)"
proof -
  from assms have "trace_ok (st_calls st) r (st_calls st') \<and>
                   map sale_fields (st_ledger st') = map sale_fields (st_ledger st)"
    unfolding markProductAsSoldOut_def
  proof (cases rule: bindR_cases)
    case (throws e)
    with sync_result[OF throws(1)] show ?thesis by (simp add: trace_ok_def)
  next
    case (returns a s1)
    from returns(2) have "trace_ok (st_calls s1) r (st_calls st') \<and> st_ledger st' = st_ledger s1"
      unfolding bindR_def invoke_def Let_def trace_ok_def
      by (auto split: option.splits)
    with sync_result[OF returns(1)] trace_ok_step[of "st_calls st" a "st_calls s1" r "st_calls st'"]
    show ?thesis by simp
  qed
  then show "trace_ok (st_calls st) r (st_calls st')"
    and "map sale_fields (st_ledger st') = map sale_fields (st_ledger st)" by simp_all
qed

lemma markProductAsDraft_result:
  assumes "markProductAsDraft env now gid pid platform st = (r, st')"
  shows "trace_ok (st_calls st) r (st_calls st')"
    and "map sale_fields (st_ledger st') = map sale_fields (st_ledger st)"
proof -
  from assms have "trace_ok (st_calls st) r (st_calls st') \<and>
                   map sale_fields (st_ledger st') = map sale_fields (st_ledger st)"
    unfolding markProductAsDraft_def
  proof (cases rule: bindR_cases)
    case (throws e)
    with sync_result[OF throws(1)] show ?thesis by (simp add: trace_ok_def)
  next
    case (returns a s1)
    from returns(2) have "trace_ok (st_calls s1) r (st_calls st') \<and> st_ledger st' = st_ledger s1"
      unfolding bindR_def invoke_def Let_def trace_ok_def
      by (auto split: option.splits)
    with sync_result[OF returns(1)] trace_ok_step[of "st_calls st" a "st_calls s1" r "st_calls st'"]
    show ?thesis by simp
  qed
  then show "trace_ok (st_calls st) r (st_calls st')"
    and "map sale_fields (st_ledger st') = map sale_fields (st_ledger st)" by simp_all
qed

text \<open>Saving after a step that kept the sale fields.\<close>

lemma save_after:
  assumes m: "m = (r1, s1)"
    and t: "trace_ok l r1 (st_calls s1)"
    and run: "bindR m (\<lambda>_ st2. bindR (invoke env (Save i) st2) (\<lambda>_ st3. (Inr res, st3\<lparr>st_ledger := saveModified i upd (st_ledger st3)\<rparr>))) = (r, st')"
  shows "trace_ok l r (st_calls st')"
    and "\<And>e. r = Inl e \<Longrightarrow> st_ledger st' = st_ledger s1"
    and "\<And>x. r = Inr x \<Longrightarrow> x = res \<and> st_ledger st' = saveModified i upd (st_ledger s1)"
proof -
  from run have "trace_ok l r (st_calls st') \<and> (\<forall>e. r = Inl e \<longrightarrow> st_ledger st' = st_ledger s1) \<and>
      (\<forall>x. r = Inr x \<longrightarrow> x = res \<and> st_ledger st' = saveModified i upd (st_ledger s1))"
  proof (cases rule: bindR_cases)
    case (throws e)
    with m t show ?thesis by (auto simp: trace_ok_def)
  next
    case (returns a s1')
    with m have eq: "s1' = s1" "r1 = Inr a" by simp_all
    from returns(2) have "trace_ok (st_calls s1) r (st_calls st') \<and>
        (\<forall>e. r = Inl e \<longrightarrow> st_ledger st' = st_ledger s1) \<and>
        (\<forall>x. r = Inr x \<longrightarrow> x = res \<and> st_ledger st' = saveModified i upd (st_ledger s1))"
      unfolding eq bindR_def invoke_def Let_def trace_ok_def
      by (auto split: option.splits)
    with t eq trace_ok_step[of l a "st_calls s1" r "st_calls st'"] show ?thesis by simp
  qed
  then show "trace_ok l r (st_calls st')"
    and "\<And>e. r = Inl e \<Longrightarrow> st_ledger st' = st_ledger s1"
    and "\<And>x. r = Inr x \<Longrightarrow> x = res \<and> st_ledger st' = saveModified i upd (st_ledger s1)"
    by simp_all
qed


lemma handle_FindOne:
  assumes "handleProductSoldStatus env now pid gid origin st = (r, st')"
  obtains (throws) e where "r = Inl e" "trace_ok (st_calls st) r (st_calls st')"
                           "st_ledger st' = st_ledger st"
  | (found) s1 where "st_ledger s1 = st_ledger st" "trace_ok (st_calls st) (Inr ()) (st_calls s1)"
      "st_calls s1 = st_calls st @ [(FindOne pid, None)]"
      "(case findOne pid (st_ledger s1) of
         None \<Rightarrow> (Inr \<lparr>sr_action = None, sr_success = False, sr_message = []\<rparr>, s1)
       | Some syncedProduct \<Rightarrow>
           if origin = ''both'' then
             bindR (markProductAsSoldOut env now gid pid s1) (\<lambda>_ st2.
               bindR (invoke env (Save (doc_id syncedProduct)) st2) (\<lambda>_ st3.
                 (Inr \<lparr>sr_action = Some ''marked_sold_out'', sr_success = True,
                       sr_message = ''Product marked as SOLD OUT (sold on both platforms)''\<rparr>,
                  st3\<lparr>st_ledger :=
                        saveModified (doc_id syncedProduct)
                          (\<lambda>d. d\<lparr>shopifyStatus := Some SOLD_OUT, soldFrom := Some Both,
                                 soldAt := Some now, updatedAt := now\<rparr>)
                          (st_ledger st3)\<rparr>)))
           else if origin = ''bunjang'' then
             bindR (markProductAsDraft env now gid pid ''bunjang'' s1) (\<lambda>_ st2.
               bindR (invoke env (Save (doc_id syncedProduct)) st2) (\<lambda>_ st3.
                 (Inr \<lparr>sr_action = Some ''marked_draft_bunjang'', sr_success = True,
                       sr_message = ''Product marked as DRAFT (sold only on Bunjang)''\<rparr>,
                  st3\<lparr>st_ledger :=
                        saveModified (doc_id syncedProduct)
                          (\<lambda>d. d\<lparr>shopifyStatus := Some DRAFT, soldFrom := Some Bunjang,
                                 soldAt := Some now, bunjangSoldAt := Some now,
                                 updatedAt := now\<rparr>)
                          (st_ledger st3)\<rparr>)))
           else if origin = ''shopify'' then
             bindR (syncBunjangInventoryToShopify env now pid 0 s1) (\<lambda>_ st2.
               bindR (invoke env (Save (doc_id syncedProduct)) st2) (\<lambda>_ st3.
                 (Inr \<lparr>sr_action = Some ''pending_bunjang_order'', sr_success = True,
                       sr_message = ''Waiting for Bunjang order creation''\<rparr>,
                  st3\<lparr>st_ledger :=
                        saveModified (doc_id syncedProduct)
                          (\<lambda>d. d\<lparr>pendingBunjangOrder := True, shopifySoldAt := Some now,
                                 updatedAt := now\<rparr>)
                          (st_ledger st3)\<rparr>)))
           else (Inr \<lparr>sr_action = None, sr_success = False,
                      sr_message = ''Unknown sold source''\<rparr>, s1)) = (r, st')"
  using assms unfolding handleProductSoldStatus_def
proof (cases rule: bindR_cases)
  case (throws e)
  then show ?thesis
    by (intro that(1)[of e]) (auto simp: invoke_def Let_def trace_ok_def split: option.splits)
next
  case (returns a s1)
  from returns(1) have "st_ledger s1 = st_ledger st" "trace_ok (st_calls st) (Inr ()) (st_calls s1)"
      "st_calls s1 = st_calls st @ [(FindOne pid, None)]"
    by (auto simp: invoke_def Let_def trace_ok_def split: option.splits)
  with returns(2) show ?thesis by (intro that(2)[of s1]) simp_all
qed

lemma handleProductSoldStatus_result:
  assumes run: "handleProductSoldStatus env now pid gid origin st = (r, st')"
  shows "trace_ok (st_calls st) r (st_calls st')"
    and "\<And>e. r = Inl e \<Longrightarrow> map sale_fields (st_ledger st') = map sale_fields (st_ledger st)"
proof -
  have "trace_ok (st_calls st) r (st_calls st') \<and>
        (\<forall>e. r = Inl e \<longrightarrow> map sale_fields (st_ledger st') = map sale_fields (st_ledger st))"
    using run
  proof (cases rule: handle_FindOne)
    case (throws e)
    then show ?thesis by simp
  next
    case (found s1)
    show ?thesis
    proof (cases "findOne pid (st_ledger s1)")
      case None
      with found(4) have "r = Inr \<lparr>sr_action = None, sr_success = False, sr_message = []\<rparr>" "st' = s1"
        by simp_all
      with found(1) trace_ok_Inr_any[OF found(2)] show ?thesis by simp
    next
      case (Some sp)
      consider (both) "origin = ''both''" | (bunjang) "origin = ''bunjang''"
        | (shopify) "origin = ''shopify''"
        | (other) "origin \<noteq> ''both''" "origin \<noteq> ''bunjang''" "origin \<noteq> ''shopify''"
        by blast
      then show ?thesis
      proof cases
        case both
        obtain r1 s2 where m: "markProductAsSoldOut env now gid pid s1 = (r1, s2)"
          by (cases "markProductAsSoldOut env now gid pid s1")
        note mr = markProductAsSoldOut_result[OF m]
        from found(4) Some both
        have run': "bindR (markProductAsSoldOut env now gid pid s1) (\<lambda>_ st2.
               bindR (invoke env (Save (doc_id sp)) st2) (\<lambda>_ st3.
                 (Inr \<lparr>sr_action = Some ''marked_sold_out'', sr_success = True,
                       sr_message = ''Product marked as SOLD OUT (sold on both platforms)''\<rparr>,
                  st3\<lparr>st_ledger :=
                        saveModified (doc_id sp)
                          (\<lambda>d. d\<lparr>shopifyStatus := Some SOLD_OUT, soldFrom := Some Both,
                                 soldAt := Some now, updatedAt := now\<rparr>)
                          (st_ledger st3)\<rparr>))) = (r, st')"
          by simp
        note sa = save_after[OF m mr(1) run']
        from trace_ok_step[OF found(2) sa(1)] have "trace_ok (st_calls st) r (st_calls st')" .
        moreover have "map sale_fields (st_ledger st') = map sale_fields (st_ledger st)"
          if "r = Inl e" for e
          using sa(2)[OF that] mr(2) found(1) by simp
        ultimately show ?thesis by blast
      next
        case bunjang
        obtain r1 s2 where m: "markProductAsDraft env now gid pid ''bunjang'' s1 = (r1, s2)"
          by (cases "markProductAsDraft env now gid pid ''bunjang'' s1")
        note mr = markProductAsDraft_result[OF m]
        from found(4) Some bunjang
        have run': "bindR (markProductAsDraft env now gid pid ''bunjang'' s1) (\<lambda>_ st2.
               bindR (invoke env (Save (doc_id sp)) st2) (\<lambda>_ st3.
                 (Inr \<lparr>sr_action = Some ''marked_draft_bunjang'', sr_success = True,
                       sr_message = ''Product marked as DRAFT (sold only on Bunjang)''\<rparr>,
                  st3\<lparr>st_ledger :=
                        saveModified (doc_id sp)
                          (\<lambda>d. d\<lparr>shopifyStatus := Some DRAFT, soldFrom := Some Bunjang,
                                 soldAt := Some now, bunjangSoldAt := Some now,
                                 updatedAt := now\<rparr>)
                          (st_ledger st3)\<rparr>))) = (r, st')"
          by simp
        note sa = save_after[OF m mr(1) run']
        from trace_ok_step[OF found(2) sa(1)] have "trace_ok (st_calls st) r (st_calls st')" .
        moreover have "map sale_fields (st_ledger st') = map sale_fields (st_ledger st)"
          if "r = Inl e" for e
          using sa(2)[OF that] mr(2) found(1) by simp
        ultimately show ?thesis by blast
      next
        case shopify
        obtain r1 s2 where m: "syncBunjangInventoryToShopify env now pid 0 s1 = (r1, s2)"
          by (cases "syncBunjangInventoryToShopify env now pid 0 s1")
        note mr = sync_result[OF m]
        from found(4) Some shopify
        have run': "bindR (syncBunjangInventoryToShopify env now pid 0 s1) (\<lambda>_ st2.
               bindR (invoke env (Save (doc_id sp)) st2) (\<lambda>_ st3.
                 (Inr \<lparr>sr_action = Some ''pending_bunjang_order'', sr_success = True,
                       sr_message = ''Waiting for Bunjang order creation''\<rparr>,
                  st3\<lparr>st_ledger :=
                        saveModified (doc_id sp)
                          (\<lambda>d. d\<lparr>pendingBunjangOrder := True, shopifySoldAt := Some now,
                                 updatedAt := now\<rparr>)
                          (st_ledger st3)\<rparr>))) = (r, st')"
          by simp
        note sa = save_after[OF m mr(1) run']
        from trace_ok_step[OF found(2) sa(1)] have "trace_ok (st_calls st) r (st_calls st')" .
        moreover have "map sale_fields (st_ledger st') = map sale_fields (st_ledger st)"
          if "r = Inl e" for e
          using sa(2)[OF that] mr(2) found(1) by simp
        ultimately show ?thesis by blast
      next
        case other
        with found(4) Some
        have "r = Inr \<lparr>sr_action = None, sr_success = False, sr_message = ''Unknown sold source''\<rparr>"
          "st' = s1"
          by simp_all
        with found(1) trace_ok_Inr_any[OF found(2)] show ?thesis by simp
      qed
    qed
  qed
  then show "trace_ok (st_calls st) r (st_calls st')"
    and "\<And>e. r = Inl e \<Longrightarrow> map sale_fields (st_ledger st') = map sale_fields (st_ledger st)"
    by simp_all
qed

lemma ends_with_throw_mem:
  "ends_with_throw e new \<Longrightarrow> (c, Some e') \<in> set new \<Longrightarrow> e' = e"
proof (induction e new rule: ends_with_throw.induct)
  case (1 e)
  then show ?case by simp
next
  case (2 e ev)
  then show ?case by (cases ev) simp
next
  case (3 e ev v va)
  from "3.prems"(1) have a: "snd ev = None" "ends_with_throw e (v # va)" by simp_all
  from "3.prems"(2) a(1) have "(c, Some e') \<in> set (v # va)" by auto
  with "3.IH" a(2) show ?case by blast
qed

lemma soldFrom_sale_fields: "soldFrom (sale_fields d) = soldFrom d"
  by (simp add: sale_fields_def)

lemma map_soldFrom_sale_fields:
  assumes "map sale_fields a = map sale_fields b"
  shows "map soldFrom a = map soldFrom b"
proof -
  have "map soldFrom a = map (soldFrom \<circ> sale_fields) a"
    by (simp add: soldFrom_sale_fields comp_def)
  also have "\<dots> = map soldFrom (map sale_fields a)" by simp
  also have "\<dots> = map soldFrom (map sale_fields b)" by (simp only: assms)
  also have "\<dots> = map (soldFrom \<circ> sale_fields) b" by simp
  also have "\<dots> = map soldFrom b" by (simp add: soldFrom_sale_fields comp_def)
  finally show ?thesis .
qed

lemma sale_fields_eqD:
  assumes "sale_fields a = sale_fields b"
  shows "doc_id a = doc_id b" "bunjangPid a = bunjangPid b" "soldFrom a = soldFrom b"
    "shopifyStatus a = shopifyStatus b" "soldAt a = soldAt b" "shopifySoldAt a = shopifySoldAt b"
    "pendingBunjangOrder a = pendingBunjangOrder b" "bunjangOrderIds a = bunjangOrderIds b"
    "shopifyGid a = shopifyGid b"
proof -
  have "doc_id (sale_fields a) = doc_id (sale_fields b)"
    "bunjangPid (sale_fields a) = bunjangPid (sale_fields b)"
    "soldFrom (sale_fields a) = soldFrom (sale_fields b)"
    "shopifyStatus (sale_fields a) = shopifyStatus (sale_fields b)"
    "soldAt (sale_fields a) = soldAt (sale_fields b)"
    "shopifySoldAt (sale_fields a) = shopifySoldAt (sale_fields b)"
    "pendingBunjangOrder (sale_fields a) = pendingBunjangOrder (sale_fields b)"
    "bunjangOrderIds (sale_fields a) = bunjangOrderIds (sale_fields b)"
    "shopifyGid (sale_fields a) = shopifyGid (sale_fields b)"
    using assms by simp_all
  then show "doc_id a = doc_id b" "bunjangPid a = bunjangPid b" "soldFrom a = soldFrom b"
    "shopifyStatus a = shopifyStatus b" "soldAt a = soldAt b" "shopifySoldAt a = shopifySoldAt b"
    "pendingBunjangOrder a = pendingBunjangOrder b" "bunjangOrderIds a = bunjangOrderIds b"
    "shopifyGid a = shopifyGid b"
    by (simp_all add: sale_fields_def)
qed

lemma findOne_sale_fields:
  "map sale_fields L1 = map sale_fields L \<Longrightarrow> findOne pid L = Some sp \<Longrightarrow>
     \<exists>sp1. findOne pid L1 = Some sp1 \<and> sale_fields sp1 = sale_fields sp"
proof (induction L arbitrary: L1)
  case Nil
  then show ?case by (simp add: findOne_def)
next
  case (Cons d L)
  from Cons.prems(1) obtain d1 L1' where l: "L1 = d1 # L1'" "sale_fields d1 = sale_fields d"
    "map sale_fields L1' = map sale_fields L"
    by (cases L1) auto
  from sale_fields_eqD(2)[OF l(2)] have p: "bunjangPid d1 = bunjangPid d" .
  show ?case
  proof (cases "bunjangPid d = pid")
    case True
    with Cons.prems(2) have "sp = d" by (simp add: findOne_def)
    with True l p show ?thesis by (simp add: findOne_def)
  next
    case False
    with Cons.prems(2) have "findOne pid L = Some sp" by (simp add: findOne_def)
    from Cons.IH[OF l(3) this] False l(1) p show ?thesis by (simp add: findOne_def)
  qed
qed

lemma findOne_saveModified:
  assumes "findOne pid L = Some sp" and "\<And>d. bunjangPid (upd d) = bunjangPid d"
  shows "findOne pid (saveModified (doc_id sp) upd L) = Some (upd sp)"
  using assms(1)
proof (induction L)
  case Nil
  then show ?case by (simp add: findOne_def)
next
  case (Cons d L)
  show ?case
  proof (cases "bunjangPid d = pid")
    case True
    with Cons.prems have "sp = d" by (simp add: findOne_def)
    with True assms(2) show ?thesis by (simp add: findOne_def saveModified_def)
  next
    case False
    with Cons.prems have "findOne pid L = Some sp" by (simp add: findOne_def)
    from Cons.IH[OF this] False assms(2) show ?thesis
      by (simp add: findOne_def saveModified_def)
  qed
qed


lemma handle_returns_ledger:
  assumes f: "findOne pid (st_ledger st) = Some sp"
    and run: "handleProductSoldStatus env now pid gid origin st = (Inr res, st')"
  shows "origin = ''both'' \<Longrightarrow>
           \<exists>sp1. sale_fields sp1 = sale_fields sp \<and>
             findOne pid (st_ledger st') =
               Some (sp1\<lparr>shopifyStatus := Some SOLD_OUT, soldFrom := Some Both,
                         soldAt := Some now, updatedAt := now\<rparr>)"
    and "origin = ''shopify'' \<Longrightarrow>
           \<exists>sp1. sale_fields sp1 = sale_fields sp \<and>
             findOne pid (st_ledger st') =
               Some (sp1\<lparr>pendingBunjangOrder := True, shopifySoldAt := Some now,
                         updatedAt := now\<rparr>)"
proof -
  from run show "origin = ''both'' \<Longrightarrow>
           \<exists>sp1. sale_fields sp1 = sale_fields sp \<and>
             findOne pid (st_ledger st') =
               Some (sp1\<lparr>shopifyStatus := Some SOLD_OUT, soldFrom := Some Both,
                         soldAt := Some now, updatedAt := now\<rparr>)"
  proof (cases rule: handle_FindOne)
    case (throws e)
    then show ?thesis by simp
  next
    case (found s1)
    assume both: "origin = ''both''"
    from f found(1) have f1: "findOne pid (st_ledger s1) = Some sp" by simp
    obtain r1 s2 where m: "markProductAsSoldOut env now gid pid s1 = (r1, s2)"
      by (cases "markProductAsSoldOut env now gid pid s1")
    note mr = markProductAsSoldOut_result[OF m]
    from found(4) f1 both
    have run': "bindR (markProductAsSoldOut env now gid pid s1) (\<lambda>_ st2.
               bindR (invoke env (Save (doc_id sp)) st2) (\<lambda>_ st3.
                 (Inr \<lparr>sr_action = Some ''marked_sold_out'', sr_success = True,
                       sr_message = ''Product marked as SOLD OUT (sold on both platforms)''\<rparr>,
                  st3\<lparr>st_ledger :=
                        saveModified (doc_id sp)
                          (\<lambda>d. d\<lparr>shopifyStatus := Some SOLD_OUT, soldFrom := Some Both,
                                 soldAt := Some now, updatedAt := now\<rparr>)
                          (st_ledger st3)\<rparr>))) = (Inr res, st')"
      by simp
    from save_after(3)[OF m mr(1) run']
    have l: "st_ledger st' = saveModified (doc_id sp)
                          (\<lambda>d. d\<lparr>shopifyStatus := Some SOLD_OUT, soldFrom := Some Both,
                                 soldAt := Some now, updatedAt := now\<rparr>) (st_ledger s2)"
      by simp
    from mr(2) found(1) have "map sale_fields (st_ledger s2) = map sale_fields (st_ledger st)"
      by simp
    from findOne_sale_fields[OF this f] obtain sp1 where
      s: "findOne pid (st_ledger s2) = Some sp1" "sale_fields sp1 = sale_fields sp"
      by blast
    from findOne_saveModified[OF s(1), of "\<lambda>d. d\<lparr>shopifyStatus := Some SOLD_OUT, soldFrom := Some Both,
                                 soldAt := Some now, updatedAt := now\<rparr>"]
      sale_fields_eqD(1)[OF s(2)] l s(2)
    show ?thesis by auto
  qed
  from run show "origin = ''shopify'' \<Longrightarrow>
           \<exists>sp1. sale_fields sp1 = sale_fields sp \<and>
             findOne pid (st_ledger st') =
               Some (sp1\<lparr>pendingBunjangOrder := True, shopifySoldAt := Some now,
                         updatedAt := now\<rparr>)"
  proof (cases rule: handle_FindOne)
    case (throws e)
    then show ?thesis by simp
  next
    case (found s1)
    assume shopify: "origin = ''shopify''"
    from f found(1) have f1: "findOne pid (st_ledger s1) = Some sp" by simp
    obtain r1 s2 where m: "syncBunjangInventoryToShopify env now pid 0 s1 = (r1, s2)"
      by (cases "syncBunjangInventoryToShopify env now pid 0 s1")
    note mr = sync_result[OF m]
    from found(4) f1 shopify
    have run': "bindR (syncBunjangInventoryToShopify env now pid 0 s1) (\<lambda>_ st2.
               bindR (invoke env (Save (doc_id sp)) st2) (\<lambda>_ st3.
                 (Inr \<lparr>sr_action = Some ''pending_bunjang_order'', sr_success = True,
                       sr_message = ''Waiting for Bunjang order creation''\<rparr>,
                  st3\<lparr>st_ledger :=
                        saveModified (doc_id sp)
                          (\<lambda>d. d\<lparr>pendingBunjangOrder := True, shopifySoldAt := Some now,
                                 updatedAt := now\<rparr>)
                          (st_ledger st3)\<rparr>))) = (Inr res, st')"
      by simp
    from save_after(3)[OF m mr(1) run']
    have l: "st_ledger st' = saveModified (doc_id sp)
                          (\<lambda>d. d\<lparr>pendingBunjangOrder := True, shopifySoldAt := Some now,
                                 updatedAt := now\<rparr>) (st_ledger s2)"
      by simp
    from mr(2) found(1) have "map sale_fields (st_ledger s2) = map sale_fields (st_ledger st)"
      by simp
    from findOne_sale_fields[OF this f] obtain sp1 where
      s: "findOne pid (st_ledger s2) = Some sp1" "sale_fields sp1 = sale_fields sp"
      by blast
    from findOne_saveModified[OF s(1), of "\<lambda>d. d\<lparr>pendingBunjangOrder := True, shopifySoldAt := Some now,
                                 updatedAt := now\<rparr>"]
      sale_fields_eqD(1)[OF s(2)] l s(2)
    show ?thesis by auto
  qed
qed


lemma markProductAsSoldOut_calls:
  assumes "markProductAsSoldOut env now gid pid st = (Inr x, st')"
  shows "\<exists>n1 n2. st_calls st' = st_calls st @ n1 @ (ProductQuery gid, None) # n2 \<and>
           ((\<forall>h. ie_product env h gid \<noteq> None) \<longrightarrow>
              (\<exists>title. n2 = [(UpdateProduct gid title ''DRAFT'' [''sold_out'', ''sold_both_platforms''], None)]))"
  using assms unfolding markProductAsSoldOut_def
proof (cases rule: bindR_cases)
  case (throws e)
  then show ?thesis by simp
next
  case (returns a s1)
  from sync_result(1)[OF returns(1)] obtain n1 where n1: "st_calls s1 = st_calls st @ n1"
    by (auto simp: trace_ok_def)
  from returns(2) have "\<exists>n2. st_calls st' = st_calls s1 @ (ProductQuery gid, None) # n2 \<and>
           ((\<forall>h. ie_product env h gid \<noteq> None) \<longrightarrow>
              (\<exists>title. n2 = [(UpdateProduct gid title ''DRAFT'' [''sold_out'', ''sold_both_platforms''], None)]))"
    unfolding bindR_def invoke_def Let_def
    by (auto split: option.splits)
  with n1 show ?thesis by auto
qed

lemma handle_both_calls:
  assumes f: "findOne pid (st_ledger st) = Some sp"
    and run: "handleProductSoldStatus env now pid gid ''both'' st = (Inr res, st')"
  shows "sr_success res \<and>
         (\<exists>new. st_calls st' = st_calls st @ new \<and>
            (ProductQuery gid, None) \<in> set new \<and> (Save (doc_id sp), None) \<in> set new \<and>
            ((\<forall>h. ie_product env h gid \<noteq> None) \<longrightarrow>
               (\<exists>title. (UpdateProduct gid title ''DRAFT'' [''sold_out'', ''sold_both_platforms''], None)
                          \<in> set new)))"
  using run
proof (cases rule: handle_FindOne)
  case (throws e)
  then show ?thesis by simp
next
  case (found s1)
  from f found(1) have f1: "findOne pid (st_ledger s1) = Some sp" by simp
  from found(4) f1
  have run': "bindR (markProductAsSoldOut env now gid pid s1) (\<lambda>_ st2.
               bindR (invoke env (Save (doc_id sp)) st2) (\<lambda>_ st3.
                 (Inr \<lparr>sr_action = Some ''marked_sold_out'', sr_success = True,
                       sr_message = ''Product marked as SOLD OUT (sold on both platforms)''\<rparr>,
                  st3\<lparr>st_ledger :=
                        saveModified (doc_id sp)
                          (\<lambda>d. d\<lparr>shopifyStatus := Some SOLD_OUT, soldFrom := Some Both,
                                 soldAt := Some now, updatedAt := now\<rparr>)
                          (st_ledger st3)\<rparr>))) = (Inr res, st')"
    by simp
  then show ?thesis
  proof (cases rule: bindR_cases)
    case (throws e)
    then show ?thesis by simp
  next
    case (returns a s2)
    from returns(2) have r: "sr_success res"
      and c: "st_calls st' = st_calls s2 @ [(Save (doc_id sp), None)]"
      unfolding bindR_def invoke_def Let_def by (auto split: option.splits)
    from markProductAsSoldOut_calls[OF returns(1)] obtain n1 n2 where
      n: "st_calls s2 = st_calls s1 @ n1 @ (ProductQuery gid, None) # n2"
      and u: "(\<forall>h. ie_product env h gid \<noteq> None) \<longrightarrow>
              (\<exists>title. n2 = [(UpdateProduct gid title ''DRAFT'' [''sold_out'', ''sold_both_platforms''], None)])"
      by blast
    let ?new = "(FindOne pid, None) # n1 @ (ProductQuery gid, None) # n2 @ [(Save (doc_id sp), None)]"
    from c n found(3) have "st_calls st' = st_calls st @ ?new" by simp
    moreover have "(ProductQuery gid, None) \<in> set ?new" "(Save (doc_id sp), None) \<in> set ?new"
      by simp_all
    moreover from u have "(\<forall>h. ie_product env h gid \<noteq> None) \<longrightarrow>
               (\<exists>title. (UpdateProduct gid title ''DRAFT'' [''sold_out'', ''sold_both_platforms''], None)
                          \<in> set ?new)"
      by auto
    ultimately show ?thesis using r by blast
  qed
qed

lemmas inv_eval = handleProductSoldStatus_def markProductAsSoldOut_def
  syncBunjangInventoryToShopify_def bindR_def invoke_def Let_def findOne_def updateOne_def
  saveModified_def calm_env_def failing_update_env_def sample_entry_def



lemma sample_both_run:
  "handleProductSoldStatus calm_env 2000 ''342351629'' ''gid://shopify/Product/7'' ''both''
      \<lparr>st_ledger = [sample_entry\<lparr>shopifyStatus := Some SOLD_OUT, soldFrom := Some Both,
                                   soldAt := Some 1000\<rparr>],
       st_calls = []\<rparr>
   = (Inr \<lparr>sr_action = Some ''marked_sold_out'', sr_success = True,
           sr_message = ''Product marked as SOLD OUT (sold on both platforms)''\<rparr>,
      \<lparr>st_ledger = [sample_entry\<lparr>shopifyStatus := Some SOLD_OUT, soldFrom := Some Both,
                                   soldAt := Some 2000, bunjangQuantity := 0,
                                   lastInventorySyncAt := Some 2000, updatedAt := 2000\<rparr>],
       st_calls =
         [(FindOne ''342351629'', None),
          (FindOne ''342351629'', None),
          (VariantsQuery ''gid://shopify/Product/7'', None),
          (UpdateInventoryLevel ''gid://shopify/InventoryItem/70'' ''gid://shopify/Location/1'' 0, None),
          (UpdateOne ''342351629'' 0, None),
          (ProductQuery ''gid://shopify/Product/7'', None),
          (UpdateProduct ''gid://shopify/Product/7'' ''[SOLD OUT] Album'' ''DRAFT''
             [''sold_out'', ''sold_both_platforms''], None),
          (Save 1, None)]\<rparr>)"
  by (simp add: inv_eval)

lemma sample_failing_run:
  "handleProductSoldStatus failing_update_env 2000 ''342351629'' ''gid://shopify/Product/7'' ''both''
      \<lparr>st_ledger = [sample_entry], st_calls = []\<rparr>
   = (Inl (JsError ''ExternalServiceError'' (Some ''SHOPIFY_PRODUCT_UPDATE_ERROR'')),
      \<lparr>st_ledger = [sample_entry\<lparr>bunjangQuantity := 0, lastInventorySyncAt := Some 2000,
                                   updatedAt := 2000\<rparr>],
       st_calls =
         [(FindOne ''342351629'', None),
          (FindOne ''342351629'', None),
          (VariantsQuery ''gid://shopify/Product/7'', None),
          (UpdateInventoryLevel ''gid://shopify/InventoryItem/70'' ''gid://shopify/Location/1'' 0, None),
          (UpdateOne ''342351629'' 0, None),
          (ProductQuery ''gid://shopify/Product/7'', None),
          (UpdateProduct ''gid://shopify/Product/7'' ''[SOLD OUT] Album'' ''DRAFT''
             [''sold_out'', ''sold_both_platforms''],
           Some (JsError ''ExternalServiceError'' (Some ''SHOPIFY_PRODUCT_UPDATE_ERROR'')))]\<rparr>)"
  by (simp add: inv_eval)

lemma setQuantitiesInput_forced:
  "inventoryItemId \<noteq> [] \<Longrightarrow>
     \<exists>location. setQuantitiesInput env inventoryItemId locationId availableQuantity =
       Some \<lparr>sq_inventoryItemId = inventoryItemId, sq_locationId = location, sq_quantity = 1\<rparr>"
  by (simp add: setQuantitiesInput_def forcedQuantity_def Let_def)






text \<open>
  Claim C7 as stated fails. On an entry already at \<open>soldFrom = both\<close> a second call
  with origin \<open>both\<close> sends the inventory update and the product update again and
  moves \<open>soldAt\<close> from 1000 to 2000.
\<close>

theorem repeated_sale_on_both_counterexample:
  "handleProductSoldStatus calm_env 2000 ''342351629'' ''gid://shopify/Product/7'' ''both''
      \<lparr>st_ledger = [sample_entry\<lparr>shopifyStatus := Some SOLD_OUT, soldFrom := Some Both,
                                   soldAt := Some 1000\<rparr>],
       st_calls = []\<rparr>
   = (Inr \<lparr>sr_action = Some ''marked_sold_out'', sr_success = True,
           sr_message = ''Product marked as SOLD OUT (sold on both platforms)''\<rparr>,
      \<lparr>st_ledger = [sample_entry\<lparr>shopifyStatus := Some SOLD_OUT, soldFrom := Some Both,
                                   soldAt := Some 2000, bunjangQuantity := 0,
                                   lastInventorySyncAt := Some 2000, updatedAt := 2000\<rparr>],
       st_calls =
         [(FindOne ''342351629'', None),
          (FindOne ''342351629'', None),
          (VariantsQuery ''gid://shopify/Product/7'', None),
          (UpdateInventoryLevel ''gid://shopify/InventoryItem/70'' ''gid://shopify/Location/1'' 0, None),
          (UpdateOne ''342351629'' 0, None),
          (ProductQuery ''gid://shopify/Product/7'', None),
          (UpdateProduct ''gid://shopify/Product/7'' ''[SOLD OUT] Album'' ''DRAFT''
             [''sold_out'', ''sold_both_platforms''], None),
          (Save 1, None)]\<rparr>)"
  by (rule sample_both_run)

text \<open>
  Claim C7, amended. The handler does not look at the current \<open>soldFrom\<close>. Called
  with origin \<open>both\<close> on an entry already at \<open>soldFrom = both\<close>, a run that
  returns has queried the listing again, has sent the product update again whenever the
  listing exists, and has saved the entry again; the entry keeps \<open>soldFrom = both\<close>,
  has \<open>shopifyStatus = SOLD_OUT\<close> and its pending flag and downstream order ids are
  untouched, but \<open>soldAt\<close> is rewritten to the current time.
\<close>

theorem repeated_sale_on_both_runs_again:
  assumes "findOne pid (st_ledger st) = Some sp"
    and "soldFrom sp = Some Both"
    and "handleProductSoldStatus env now pid gid ''both'' st = (Inr res, st')"
  shows "sr_success res
       \<and> (\<exists>sp'. findOne pid (st_ledger st') = Some sp' \<and>
             soldFrom sp' = Some Both \<and> shopifyStatus sp' = Some SOLD_OUT \<and>
             soldAt sp' = Some now \<and>
             pendingBunjangOrder sp' = pendingBunjangOrder sp \<and>
             bunjangOrderIds sp' = bunjangOrderIds sp)
       \<and> (\<exists>new. st_calls st' = st_calls st @ new \<and>
             (ProductQuery gid, None) \<in> set new \<and> (Save (doc_id sp), None) \<in> set new \<and>
             ((\<forall>h. ie_product env h gid \<noteq> None) \<longrightarrow>
                (\<exists>title. (UpdateProduct gid title ''DRAFT'' [''sold_out'', ''sold_both_platforms''], None)
                           \<in> set new)))"
proof -
  from handle_returns_ledger(1)[OF assms(1,3)] obtain sp1 where
    s: "sale_fields sp1 = sale_fields sp"
    and l: "findOne pid (st_ledger st') =
               Some (sp1\<lparr>shopifyStatus := Some SOLD_OUT, soldFrom := Some Both,
                         soldAt := Some now, updatedAt := now\<rparr>)"
    by blast
  from l sale_fields_eqD[OF s]
  have "\<exists>sp'. findOne pid (st_ledger st') = Some sp' \<and>
             soldFrom sp' = Some Both \<and> shopifyStatus sp' = Some SOLD_OUT \<and>
             soldAt sp' = Some now \<and>
             pendingBunjangOrder sp' = pendingBunjangOrder sp \<and>
             bunjangOrderIds sp' = bunjangOrderIds sp"
    by simp
  with handle_both_calls[OF assms(1,3)] show ?thesis by blast
qed

theorem repeated_sale_on_both_runs_again_witness:
  "(\<exists>sp'. findOne ''342351629''
             [sample_entry\<lparr>shopifyStatus := Some SOLD_OUT, soldFrom := Some Both,
                            soldAt := Some 2000, bunjangQuantity := 0,
                            lastInventorySyncAt := Some 2000, updatedAt := 2000\<rparr>] = Some sp' \<and>
          soldFrom sp' = Some Both \<and> shopifyStatus sp' = Some SOLD_OUT \<and>
          soldAt sp' = Some 2000 \<and> \<not> pendingBunjangOrder sp' \<and> bunjangOrderIds sp' = [])
   \<and> (\<exists>title.
         (UpdateProduct ''gid://shopify/Product/7'' title ''DRAFT''
            [''sold_out'', ''sold_both_platforms''], None)
         \<in> set [(FindOne ''342351629'', None),
                 (FindOne ''342351629'', None),
                 (VariantsQuery ''gid://shopify/Product/7'', None),
                 (UpdateInventoryLevel ''gid://shopify/InventoryItem/70''
                    ''gid://shopify/Location/1'' 0, None),
                 (UpdateOne ''342351629'' 0, None),
                 (ProductQuery ''gid://shopify/Product/7'', None),
                 (UpdateProduct ''gid://shopify/Product/7'' ''[SOLD OUT] Album'' ''DRAFT''
                    [''sold_out'', ''sold_both_platforms''], None),
                 (Save 1, None)])"
proof -
  let ?e = "sample_entry\<lparr>shopifyStatus := Some SOLD_OUT, soldFrom := Some Both, soldAt := Some 1000\<rparr>"
  have f: "findOne ''342351629'' (st_ledger \<lparr>st_ledger = [?e], st_calls = []\<rparr>) = Some ?e"
    by (simp add: findOne_def sample_entry_def)
  have t: "soldFrom ?e = Some Both" by simp
  have p: "\<forall>h. ie_product calm_env h ''gid://shopify/Product/7'' \<noteq> None"
    by (simp add: calm_env_def)
  from repeated_sale_on_both_runs_again[OF f t sample_both_run] p
  show ?thesis
    by (simp add: sample_entry_def)
qed

text \<open>
  Claim C8. If any call the handler makes throws, and so in particular if the
  storefront mutation (the product update or the inventory update) throws, the handler
  throws that error and the \<open>soldFrom\<close> of every ledger entry is what it was before
  the call.
\<close>

theorem failed_mutation_keeps_soldFrom:
  assumes "handleProductSoldStatus env now pid gid origin st = (r, st')"
  shows "\<exists>new. st_calls st' = st_calls st @ new \<and>
           (\<forall>c e. (c, Some e) \<in> set new \<longrightarrow>
                r = Inl e \<and> map soldFrom (st_ledger st') = map soldFrom (st_ledger st))"
proof -
  note h = handleProductSoldStatus_result[OF assms]
  from h(1) obtain new where n: "st_calls st' = st_calls st @ new"
    and c: "case r of Inr a \<Rightarrow> list_all (\<lambda>ev. snd ev = None) new | Inl e \<Rightarrow> ends_with_throw e new"
    by (auto simp: trace_ok_def)
  have "r = Inl e \<and> map soldFrom (st_ledger st') = map soldFrom (st_ledger st)"
    if "(c', Some e) \<in> set new" for c' e
  proof (cases r)
    case (Inl e')
    with c have "ends_with_throw e' new" by simp
    from ends_with_throw_mem[OF this that] have "e = e'" .
    with Inl map_soldFrom_sale_fields[OF h(2)[OF Inl]] show ?thesis by simp
  next
    case (Inr a)
    with c have "list_all (\<lambda>ev. snd ev = None) new" by simp
    then have "\<forall>ev \<in> set new. snd ev = None" by (simp add: list_all_iff)
    with that have "snd (c', Some e) = None" by blast
    then show ?thesis by simp
  qed
  with n show ?thesis by blast
qed

theorem failed_mutation_keeps_soldFrom_witness:
  "fst (handleProductSoldStatus failing_update_env 2000 ''342351629'' ''gid://shopify/Product/7''
          ''both'' \<lparr>st_ledger = [sample_entry], st_calls = []\<rparr>)
     = Inl (JsError ''ExternalServiceError'' (Some ''SHOPIFY_PRODUCT_UPDATE_ERROR''))
   \<and> map soldFrom
        (st_ledger (snd (handleProductSoldStatus failing_update_env 2000 ''342351629''
                           ''gid://shopify/Product/7'' ''both''
                           \<lparr>st_ledger = [sample_entry], st_calls = []\<rparr>)))
     = [None]"
proof -
  let ?e = "JsError ''ExternalServiceError'' (Some ''SHOPIFY_PRODUCT_UPDATE_ERROR'')"
  let ?u = "UpdateProduct ''gid://shopify/Product/7'' ''[SOLD OUT] Album'' ''DRAFT''
             [''sold_out'', ''sold_both_platforms'']"
  from failed_mutation_keeps_soldFrom[OF sample_failing_run] obtain new where
    n: "[(FindOne ''342351629'', None),
          (FindOne ''342351629'', None),
          (VariantsQuery ''gid://shopify/Product/7'', None),
          (UpdateInventoryLevel ''gid://shopify/InventoryItem/70'' ''gid://shopify/Location/1'' 0, None),
          (UpdateOne ''342351629'' 0, None),
          (ProductQuery ''gid://shopify/Product/7'', None),
          (?u, Some ?e)] = new"
    and k: "\<forall>c e. (c, Some e) \<in> set new \<longrightarrow>
              map soldFrom [sample_entry\<lparr>bunjangQuantity := 0, lastInventorySyncAt := Some 2000,
                                          updatedAt := 2000\<rparr>] = map soldFrom [sample_entry]"
    by auto
  from n have "(?u, Some ?e) \<in> set new" by auto
  with k have "map soldFrom [sample_entry\<lparr>bunjangQuantity := 0, lastInventorySyncAt := Some 2000,
                                          updatedAt := 2000\<rparr>] = map soldFrom [sample_entry]"
    by blast
  then show ?thesis
    unfolding sample_failing_run by (simp add: sample_entry_def)
qed

section \<open>Properties of the order orchestrator\<close>

lemma created_in_append: "created_in (a @ b) = created_in a @ created_in b"
  by (induction a rule: created_in.induct) simp_all

lemma created_in_nonempty_iff:
  "created_in new \<noteq> [] \<longleftrightarrow> (\<exists>p i. CreateBunjangOrderV2 p (Inr (Some i)) \<in> set new)"
  by (induction new rule: created_in.induct) auto

lemma step_ok_refl: "step_ok st st"
  by (simp add: step_ok_def)

lemma quiet_refl: "quiet st st"
  by (simp add: quiet_def)

lemma step_ok_trans:
  assumes "step_ok a b" and "step_ok b c"
  shows "step_ok a c"
proof -
  from assms(1) obtain n1 where 1: "os_log b = os_log a @ n1"
    "createdBunjangOrderIds b = createdBunjangOrderIds a @ created_in n1"
    "bunjangOrderSuccessfullyCreatedOverall b =
       (bunjangOrderSuccessfullyCreatedOverall a \<or> created_in n1 \<noteq> [])"
    by (auto simp: step_ok_def)
  from assms(2) obtain n2 where 2: "os_log c = os_log b @ n2"
    "createdBunjangOrderIds c = createdBunjangOrderIds b @ created_in n2"
    "bunjangOrderSuccessfullyCreatedOverall c =
       (bunjangOrderSuccessfullyCreatedOverall b \<or> created_in n2 \<noteq> [])"
    by (auto simp: step_ok_def)
  from 1 2 show ?thesis
    unfolding step_ok_def
    by (intro exI[of _ "n1 @ n2"]) (simp add: created_in_append)
qed

lemma quiet_trans:
  assumes "quiet a b" and "quiet b c"
  shows "quiet a c"
proof -
  from assms(1) obtain n1 where 1: "os_log b = os_log a @ n1" "created_in n1 = []"
    "createdBunjangOrderIds b = createdBunjangOrderIds a"
    "bunjangOrderSuccessfullyCreatedOverall b = bunjangOrderSuccessfullyCreatedOverall a"
    by (auto simp: quiet_def)
  from assms(2) obtain n2 where 2: "os_log c = os_log b @ n2" "created_in n2 = []"
    "createdBunjangOrderIds c = createdBunjangOrderIds b"
    "bunjangOrderSuccessfullyCreatedOverall c = bunjangOrderSuccessfullyCreatedOverall b"
    by (auto simp: quiet_def)
  from 1 2 show ?thesis
    unfolding quiet_def
    by (intro exI[of _ "n1 @ n2"]) (simp add: created_in_append)
qed

lemma quiet_step_ok: "quiet a b \<Longrightarrow> step_ok a b"
  by (auto simp: quiet_def step_ok_def)

lemma quiet_event:
  "created_in [ev] = [] \<Longrightarrow> quiet st (record_event ev st)"
  unfolding quiet_def record_event_def
  by (intro exI[of _ "[ev]"]) simp

lemma updateOrder_quiet:
  "updateOrder env gid tags mf st = (r, st') \<Longrightarrow> quiet st st'"
  unfolding updateOrder_def Let_def
  by (auto split: option.splits intro!: quiet_event)

lemma checkPointBalance_quiet: "quiet st (checkPointBalance env ord st)"
proof -
  let ?st1 = "record_event GetBunjangPointBalance st"
  have 1: "quiet st ?st1" by (rule quiet_event) simp
  have 2: "quiet ?st1 (snd (updateOrder env g t m ?st1))" for g t m
    by (cases "updateOrder env g t m ?st1") (auto dest: updateOrder_quiet)
  show ?thesis
    unfolding checkPointBalance_def Let_def
    using 1 quiet_trans[OF 1 2]
    by (auto split: sum.splits option.splits)
qed

lemma tryCatch_cases:
  assumes "tryCatch m h = (r, s')"
  obtains (caught) e s1 where "m = (Inl e, s1)" "h e s1 = (r, s')"
        | (returns) a where "m = (Inr a, s')" "r = Inr a"
  using assms by (auto simp: tryCatch_def split: prod.splits sum.splits)

lemma afterCreated_result:
  assumes "afterCreated env ord pid gid i st = (r, st')"
  shows "\<exists>new. os_log st' = os_log st @ new \<and> created_in new = [] \<and>
           createdBunjangOrderIds st' = createdBunjangOrderIds st @ [i] \<and>
           bunjangOrderSuccessfullyCreatedOverall st'"
proof -
  let ?st1 = "st\<lparr>createdBunjangOrderIds := createdBunjangOrderIds st @ [i],
                  bunjangOrderSuccessfullyCreatedOverall := True\<rparr>"
  have "quiet ?st1 st'"
    using assms unfolding afterCreated_def Let_def
  proof (cases rule: bindR_cases)
    case (throws e)
    then show ?thesis by (auto dest: updateOrder_quiet)
  next
    case (returns a s2)
    from updateOrder_quiet[OF returns(1)] have q1: "quiet ?st1 s2" .
    let ?s3 = "checkPointBalance env ord s2"
    let ?ev = "SoldStatusCall pid gid ''shopify'' (oe_handleProductSoldStatus env (os_log ?s3) pid gid)"
    have q2: "quiet s2 ?s3" by (rule checkPointBalance_quiet)
    have q3: "quiet ?s3 (record_event ?ev ?s3)" by (rule quiet_event) simp
    from returns(2) have "st' = record_event ?ev ?s3"
      by (auto simp: Let_def split: option.splits)
    with quiet_trans[OF q1 quiet_trans[OF q2 q3]] show ?thesis by simp
  qed
  then show ?thesis by (auto simp: quiet_def)
qed

lemma createOrderAttempt_step:
  assumes "createOrderAttempt env ord pid gid pl st = (r, st')"
  shows "step_ok st st'"
proof -
  let ?reply = "oe_createBunjangOrderV2 env (os_log st) pl"
  let ?st1 = "record_event (CreateBunjangOrderV2 pl ?reply) st"
  have body: "step_ok st s1"
    if "(case ?reply of
           Inl e \<Rightarrow> (Inl e, ?st1)
         | Inr (Some bunjangOrderId) \<Rightarrow> afterCreated env ord pid gid bunjangOrderId ?st1
         | Inr None \<Rightarrow>
             updateOrder env (so_gid ord)
               [bunjangOrderIdentifier env ord @ ''_Error'',
                ''PID-'' @ pid @ ''-InvalidResponse''] [] ?st1) = (r1, s1)" for r1 s1
  proof (cases ?reply)
    case (Inl e)
    with that have "s1 = ?st1" by simp
    moreover have "quiet st ?st1" using Inl by (intro quiet_event) simp
    ultimately show ?thesis by (simp add: quiet_step_ok)
  next
    case (Inr opt)
    show ?thesis
    proof (cases opt)
      case None
      with Inr that have u: "updateOrder env (so_gid ord)
               [bunjangOrderIdentifier env ord @ ''_Error'',
                ''PID-'' @ pid @ ''-InvalidResponse''] [] ?st1 = (r1, s1)" by simp
      have "quiet st ?st1" using Inr None by (intro quiet_event) simp
      from quiet_trans[OF this updateOrder_quiet[OF u]] show ?thesis by (rule quiet_step_ok)
    next
      case (Some i)
      with Inr that have a: "afterCreated env ord pid gid i ?st1 = (r1, s1)" by simp
      from afterCreated_result[OF a] obtain new where
        n: "os_log s1 = os_log ?st1 @ new" "created_in new = []"
           "createdBunjangOrderIds s1 = createdBunjangOrderIds ?st1 @ [i]"
           "bunjangOrderSuccessfullyCreatedOverall s1"
        by blast
      with Inr Some show ?thesis
        unfolding step_ok_def record_event_def
        by (intro exI[of _ "CreateBunjangOrderV2 pl (Inr (Some i)) # new"]) simp
    qed
  qed
  from assms show ?thesis
    unfolding createOrderAttempt_def Let_def
  proof (cases rule: tryCatch_cases)
    case (caught e s1)
    from body[OF caught(1)] updateOrder_quiet[OF caught(2)]
    show ?thesis by (auto intro: step_ok_trans quiet_step_ok)
  next
    case (returns a)
    from body[OF returns(1)] show ?thesis .
  qed
qed

lemma resolveSyncedProduct_quiet:
  "resolveSyncedProduct env productId st = (r, st') \<Longrightarrow> quiet st st'"
proof -
  assume a: "resolveSyncedProduct env productId st = (r, st')"
  let ?st1 = "record_event (FindSyncedProduct productId) st"
  let ?g = "''gid://shopify/Product/'' @ productId"
  have q1: "quiet st ?st1" by (rule quiet_event) simp
  have q2: "quiet ?st1 (record_event (GetProductTags ?g) ?st1)" by (rule quiet_event) simp
  have "snd (lookupByTag env productId ?st1) = record_event (GetProductTags ?g) ?st1"
    unfolding lookupByTag_def Let_def by (auto split: sum.splits option.splits)
  with a have "st' = ?st1 \<or> st' = record_event (GetProductTags ?g) ?st1"
    unfolding resolveSyncedProduct_def Let_def
    by (auto split: sum.splits option.splits prod.splits)
  with q1 quiet_trans[OF q1 q2] show ?thesis by auto
qed

lemma processResolved_step:
  assumes "processResolved env ord item pid gid st = (r, st')"
  shows "step_ok st st'"
proof -
  let ?st1 = "record_event (GetBunjangProductDetails pid) st"
  have q1: "quiet st ?st1" by (rule quiet_event) simp
  have body: "step_ok st s1"
    if "s1 = ?st1 \<or> (\<exists>t. updateOrder env (so_gid ord) t [] ?st1 = (r1, s1)) \<or>
        (\<exists>pl. createOrderAttempt env ord pid gid pl ?st1 = (r1, s1))" for r1 s1
    using that
  proof (elim disjE exE)
    assume "s1 = ?st1"
    with q1 show ?thesis by (simp add: quiet_step_ok)
  next
    fix t assume "updateOrder env (so_gid ord) t [] ?st1 = (r1, s1)"
    from quiet_trans[OF q1 updateOrder_quiet[OF this]] show ?thesis by (rule quiet_step_ok)
  next
    fix pl assume "createOrderAttempt env ord pid gid pl ?st1 = (r1, s1)"
    from step_ok_trans[OF quiet_step_ok[OF q1] createOrderAttempt_step[OF this]]
    show ?thesis .
  qed
  from assms show ?thesis
    unfolding processResolved_def Let_def
  proof (cases rule: tryCatch_cases)
    case (caught e s1)
    from caught(1) have "s1 = ?st1 \<or>
        (\<exists>t. updateOrder env (so_gid ord) t [] ?st1 = (Inl e, s1)) \<or>
        (\<exists>pl. createOrderAttempt env ord pid gid pl ?st1 = (Inl e, s1))"
      by (auto split: sum.splits option.splits if_splits)
    from step_ok_trans[OF body[OF this] quiet_step_ok[OF updateOrder_quiet[OF caught(2)]]]
    show ?thesis .
  next
    case (returns a)
    from returns(1) have "st' = ?st1 \<or>
        (\<exists>t. updateOrder env (so_gid ord) t [] ?st1 = (Inr a, st')) \<or>
        (\<exists>pl. createOrderAttempt env ord pid gid pl ?st1 = (Inr a, st'))"
      by (auto split: sum.splits option.splits if_splits)
    from body[OF this] show ?thesis .
  qed
qed

lemma processLineItem_step:
  assumes "processLineItem env ord item st = (r, st')"
  shows "step_ok st st'"
  using assms unfolding processLineItem_def
proof (cases rule: bindR_cases)
  case (throws e)
  from resolveSyncedProduct_quiet[OF throws(1)] show ?thesis by (rule quiet_step_ok)
next
  case (returns a s1)
  note q = quiet_step_ok[OF resolveSyncedProduct_quiet[OF returns(1)]]
  from returns(2) have "st' = s1 \<or> (\<exists>pid gid. processResolved env ord item pid gid s1 = (r, st'))"
    by (auto split: option.splits prod.splits if_splits)
  then show ?thesis
  proof (elim disjE exE)
    assume "st' = s1" with q show ?thesis by simp
  next
    fix pid gid assume "processResolved env ord item pid gid s1 = (r, st')"
    from step_ok_trans[OF q processResolved_step[OF this]] show ?thesis .
  qed
qed

lemma processLineItems_step:
  "processLineItems env ord items st = (r, st') \<Longrightarrow> step_ok st st'"
proof (induction items arbitrary: st)
  case Nil
  then show ?case by (simp add: step_ok_refl)
next
  case (Cons item items)
  from Cons.prems have "bindR (processLineItem env ord item st)
       (\<lambda>_ st'. processLineItems env ord items st') = (r, st')" by simp
  then show ?case
  proof (cases rule: bindR_cases)
    case (throws e)
    from processLineItem_step[OF throws(1)] show ?thesis .
  next
    case (returns a s1)
    from step_ok_trans[OF processLineItem_step[OF returns(1)] Cons.IH[OF returns(2)]]
    show ?thesis .
  qed
qed

lemma orderPlacedUpdate_quiet:
  assumes "orderPlacedUpdate env ord st = (r, st')"
  shows "quiet st st'"
proof (cases "length (createdBunjangOrderIds st) > 0")
  case True
  with assms obtain t m where "updateOrder env (so_gid ord) t m st = (r, st')"
    unfolding orderPlacedUpdate_def by simp
  then show ?thesis by (rule updateOrder_quiet)
next
  case False
  with assms have "st' = st" unfolding orderPlacedUpdate_def by simp
  then show ?thesis by (simp add: quiet_refl)
qed

lemma processShopifyOrder_result:
  assumes run: "processShopifyOrderForBunjang env ord h = (Inr res, h')"
  shows "\<exists>new. h' = h @ new \<and>
           (res_success res \<longleftrightarrow> (res_alreadyProcessed res \<or> created_in new \<noteq> [])) \<and>
           (res_success res \<and> \<not> res_alreadyProcessed res \<longrightarrow>
              res_bunjangOrderIds res = created_in new)"
proof -
  let ?mf = "getOrderMetafield env h (so_gid ord)"
  let ?ev = "GetOrderMetafield (so_gid ord) ?mf"
  let ?h1 = "h @ [?ev]"
  let ?st0 = "\<lparr>os_log = ?h1, createdBunjangOrderIds = [],
                bunjangOrderSuccessfullyCreatedOverall = False\<rparr>"
  have v: "\<not> (so_id ord = [] \<or> so_gid ord = [] \<or> so_line_items ord = [])"
    using run
    by (cases "so_id ord = [] \<or> so_gid ord = [] \<or> so_line_items ord = []")
       (simp_all add: processShopifyOrderForBunjang_def)
  show ?thesis
  proof (cases "existingOrderIds env ?mf")
    case (Some ids)
    with run v have "res_success res" "res_alreadyProcessed res" "h' = h @ [?ev]"
      by (auto simp: processShopifyOrderForBunjang_def Let_def)
    then show ?thesis by auto
  next
    case None
    obtain rb st where rb: "bindR (processLineItems env ord (so_line_items ord) ?st0)
          (\<lambda>_ st. orderPlacedUpdate env ord st) = (rb, st)"
      by (cases "bindR (processLineItems env ord (so_line_items ord) ?st0)
          (\<lambda>_ st. orderPlacedUpdate env ord st)")
    from run v None rb have run': "(case rb of
         Inl e \<Rightarrow> (Inl e, os_log st)
       | Inr _ \<Rightarrow>
           if bunjangOrderSuccessfullyCreatedOverall st then
             (Inr \<lparr>res_success = True, res_alreadyProcessed = False,
                   res_bunjangOrderIds = createdBunjangOrderIds st, res_message = []\<rparr>, os_log st)
           else
             (Inr \<lparr>res_success = False, res_alreadyProcessed = False,
                   res_bunjangOrderIds = [],
                   res_message = ''no Bunjang order was created''\<rparr>, os_log st)) = (Inr res, h')"
      by (simp add: processShopifyOrderForBunjang_def Let_def)
    then obtain x where x: "rb = Inr x" by (cases rb) simp_all
    from run' x have r: "h' = os_log st"
         "res_success res = bunjangOrderSuccessfullyCreatedOverall st"
         "\<not> res_alreadyProcessed res"
         "res_success res \<longrightarrow> res_bunjangOrderIds res = createdBunjangOrderIds st"
      by (auto split: if_splits)
    from rb x have b: "bindR (processLineItems env ord (so_line_items ord) ?st0)
          (\<lambda>_ st. orderPlacedUpdate env ord st) = (Inr x, st)" by simp
    from b show ?thesis
    proof (cases rule: bindR_cases)
      case (throws e)
      then show ?thesis by simp
    next
      case (returns a s1)
      from processLineItems_step[OF returns(1)] obtain n1 where
        n1: "os_log s1 = ?h1 @ n1" "createdBunjangOrderIds s1 = created_in n1"
            "bunjangOrderSuccessfullyCreatedOverall s1 = (created_in n1 \<noteq> [])"
        by (auto simp: step_ok_def)
      from orderPlacedUpdate_quiet[OF returns(2)] obtain n2 where
        n2: "os_log st = os_log s1 @ n2" "created_in n2 = []"
            "createdBunjangOrderIds st = createdBunjangOrderIds s1"
            "bunjangOrderSuccessfullyCreatedOverall st = bunjangOrderSuccessfullyCreatedOverall s1"
        by (auto simp: quiet_def)
      let ?new = "?ev # n1 @ n2"
      have c: "created_in ?new = created_in n1" using n2(2) by (simp add: created_in_append)
      have l: "h' = h @ ?new" using r(1) n1(1) n2(1) by simp
      have s: "res_success res = (created_in ?new \<noteq> [])" using r(2) n2(4) n1(3) c by simp
      have i: "res_success res \<longrightarrow> res_bunjangOrderIds res = created_in ?new"
        using r(4) n2(3) n1(2) c by simp
      from l s i r(3) show ?thesis by (intro exI[of _ ?new]) simp
    qed
  qed
qed

lemma orderPlacedUpdate_marker:
  assumes "orderPlacedUpdate env ord st = (Inr x, st')"
    and "createdBunjangOrderIds st \<noteq> []"
  shows "\<exists>tags other. os_log st' = os_log st @
             [UpdateOrder (so_gid ord) tags
                ((''order_ids'', oe_JSON_stringify env (createdBunjangOrderIds st)) # other) None]"
proof -
  let ?tags = "[''BunjangOrderPlaced'', bunjangOrderIdentifier env ord,
           ''Orders-'' @ natToString (length (createdBunjangOrderIds st))]"
  let ?mf = "[(''order_ids'', oe_JSON_stringify env (createdBunjangOrderIds st)),
           (''order_created_at'', oe_nowISO env),
           (''order_count'', natToString (length (createdBunjangOrderIds st)))]"
  from assms have u: "updateOrder env (so_gid ord) ?tags ?mf st = (Inr x, st')"
    by (simp add: orderPlacedUpdate_def)
  then have "oe_updateOrder env (os_log st) (so_gid ord) ?tags ?mf = None"
    by (simp add: updateOrder_def Let_def split: option.splits)
  with u have "os_log st' = os_log st @ [UpdateOrder (so_gid ord) ?tags ?mf None]"
    by (auto simp: updateOrder_def Let_def record_event_def)
  then show ?thesis by blast
qed

lemma processShopifyOrder_marker_written:
  assumes run: "processShopifyOrderForBunjang env ord h = (Inr res, h')"
    and ok: "res_success res" and np: "\<not> res_alreadyProcessed res"
  shows "\<exists>tags other. h' \<noteq> [] \<and>
           last h' = UpdateOrder (so_gid ord) tags
             ((''order_ids'', oe_JSON_stringify env (res_bunjangOrderIds res)) # other) None"
proof -
  let ?mf = "getOrderMetafield env h (so_gid ord)"
  let ?h1 = "h @ [GetOrderMetafield (so_gid ord) ?mf]"
  let ?st0 = "\<lparr>os_log = ?h1, createdBunjangOrderIds = [],
                bunjangOrderSuccessfullyCreatedOverall = False\<rparr>"
  have v: "\<not> (so_id ord = [] \<or> so_gid ord = [] \<or> so_line_items ord = [])"
    using run
    by (cases "so_id ord = [] \<or> so_gid ord = [] \<or> so_line_items ord = []")
       (simp_all add: processShopifyOrderForBunjang_def)
  have e: "existingOrderIds env ?mf = None"
  proof (cases "existingOrderIds env ?mf")
    case (Some ids)
    with run v have "res_alreadyProcessed res"
      by (auto simp: processShopifyOrderForBunjang_def Let_def)
    with np show ?thesis by simp
  qed simp
  obtain rb st where rb: "bindR (processLineItems env ord (so_line_items ord) ?st0)
          (\<lambda>_ st. orderPlacedUpdate env ord st) = (rb, st)"
    by (cases "bindR (processLineItems env ord (so_line_items ord) ?st0)
          (\<lambda>_ st. orderPlacedUpdate env ord st)")
  from run v e rb have run': "(case rb of
         Inl e \<Rightarrow> (Inl e, os_log st)
       | Inr _ \<Rightarrow>
           if bunjangOrderSuccessfullyCreatedOverall st then
             (Inr \<lparr>res_success = True, res_alreadyProcessed = False,
                   res_bunjangOrderIds = createdBunjangOrderIds st, res_message = []\<rparr>, os_log st)
           else
             (Inr \<lparr>res_success = False, res_alreadyProcessed = False,
                   res_bunjangOrderIds = [],
                   res_message = ''no Bunjang order was created''\<rparr>, os_log st)) = (Inr res, h')"
    by (simp add: processShopifyOrderForBunjang_def Let_def)
  then obtain x where x: "rb = Inr x" by (cases rb) simp_all
  from run' x ok have r: "h' = os_log st" "bunjangOrderSuccessfullyCreatedOverall st"
       "res_bunjangOrderIds res = createdBunjangOrderIds st"
    by (auto split: if_splits)
  from rb x have b: "bindR (processLineItems env ord (so_line_items ord) ?st0)
          (\<lambda>_ st. orderPlacedUpdate env ord st) = (Inr x, st)" by simp
  from b show ?thesis
  proof (cases rule: bindR_cases)
    case (throws e)
    then show ?thesis by simp
  next
    case (returns a s1)
    from processLineItems_step[OF returns(1)] obtain n1 where
      n1: "createdBunjangOrderIds s1 = created_in n1"
          "bunjangOrderSuccessfullyCreatedOverall s1 = (created_in n1 \<noteq> [])"
      by (auto simp: step_ok_def)
    from orderPlacedUpdate_quiet[OF returns(2)] have
      n2: "createdBunjangOrderIds st = createdBunjangOrderIds s1"
          "bunjangOrderSuccessfullyCreatedOverall st = bunjangOrderSuccessfullyCreatedOverall s1"
      by (auto simp: quiet_def)
    from r(2) n1 n2 have ne: "createdBunjangOrderIds s1 \<noteq> []" by simp
    from orderPlacedUpdate_marker[OF returns(2) ne] obtain tags other where
      "os_log st = os_log s1 @ [UpdateOrder (so_gid ord) tags
                ((''order_ids'', oe_JSON_stringify env (createdBunjangOrderIds s1)) # other) None]"
      by blast
    with r(1,3) n2(1) show ?thesis by simp
  qed
qed

lemma selling_details_simps:
  "bd_status selling_details = Some ''SELLING''"
  "bd_saleStatus selling_details = None"
  "bd_quantity selling_details = Some 1"
  by (simp_all add: selling_details_def)

lemmas orch_eval = processShopifyOrderForBunjang_def getOrderMetafield_def existingOrderIds_def
  processLineItem_def resolveSyncedProduct_def lookupByTag_def processResolved_def
  createOrderAttempt_def afterCreated_def checkPointBalance_def updateOrder_def
  record_event_def orderPlacedUpdate_def bunjangOrderIdentifier_def tryCatch_def bindR_def
  Let_def js_or_def template_def natToString.simps sample_stringify_def selling_details_simps
  three_item_order_def notfound_first_order_def

lemma sample_partial_run:
  "processShopifyOrderForBunjang partial_env three_item_order []
   = (Inr \<lparr>res_success = True, res_alreadyProcessed = False,
           res_bunjangOrderIds = [''B111'', ''B333''], res_message = []\<rparr>,
      [GetOrderMetafield ''gid://shopify/Order/1001'' None,
       FindSyncedProduct ''71'',
       GetBunjangProductDetails ''111'',
       CreateBunjangOrderV2 (Payload \<lparr>sl_id = ''L1'', sl_product_id = ''71''\<rparr> ''111'' selling_details)
         (Inr (Some ''B111'')),
       UpdateOrder ''gid://shopify/Order/1001'' [''BunjangOrder-B111'', ''PID-111-Success''] [] None,
       GetBunjangPointBalance,
       SoldStatusCall ''111'' (Some ''gid://shopify/Product/71'') ''shopify'' None,
       FindSyncedProduct ''72'',
       GetBunjangProductDetails ''222'',
       UpdateOrder ''gid://shopify/Order/1001'' [''BunjangOrder-1001_Error'', ''PID-222-NotFound''] [] None,
       FindSyncedProduct ''73'',
       GetBunjangProductDetails ''333'',
       CreateBunjangOrderV2 (Payload \<lparr>sl_id = ''L3'', sl_product_id = ''73''\<rparr> ''333'' selling_details)
         (Inr (Some ''B333'')),
       UpdateOrder ''gid://shopify/Order/1001'' [''BunjangOrder-B333'', ''PID-333-Success''] [] None,
       GetBunjangPointBalance,
       SoldStatusCall ''333'' (Some ''gid://shopify/Product/73'') ''shopify'' None,
       UpdateOrder ''gid://shopify/Order/1001''
         [''BunjangOrderPlaced'', ''BunjangOrder-1001'', ''Orders-2'']
         [(''order_ids'', ''[\"B111\",\"B333\"]''),
          (''order_created_at'', ''2024-01-01T00:00:00.000Z''),
          (''order_count'', ''2'')] None])"
  by (simp add: orch_eval partial_env_def digitChar_def)

text \<open>
  Claim C2 as stated fails. The storefront holds the marker \<open>["B111","B333"]\<close> of
  an earlier run, but the request that reads it throws: \<open>getOrderMetafield\<close> swallows
  the error and returns \<open>null\<close>, and the orchestrator processes the line items and
  creates the second downstream orders \<open>C111\<close> and \<open>C333\<close>. The line items are
  processed as well when the read returns a value that \<open>JSON.parse\<close> rejects.
\<close>

theorem marker_unread_counterexample:
  "oe_orderIdsMetafield unread_marker_env [] ''gid://shopify/Order/1001'' = Some ''[\"B111\",\"B333\"]''
   \<and> processShopifyOrderForBunjang unread_marker_env three_item_order []
   = (Inr \<lparr>res_success = True, res_alreadyProcessed = False,
           res_bunjangOrderIds = [''C111'', ''C333''], res_message = []\<rparr>,
      [GetOrderMetafield ''gid://shopify/Order/1001'' None,
       FindSyncedProduct ''71'',
       GetBunjangProductDetails ''111'',
       CreateBunjangOrderV2 (Payload \<lparr>sl_id = ''L1'', sl_product_id = ''71''\<rparr> ''111'' selling_details)
         (Inr (Some ''C111'')),
       UpdateOrder ''gid://shopify/Order/1001'' [''BunjangOrder-C111'', ''PID-111-Success''] [] None,
       GetBunjangPointBalance,
       SoldStatusCall ''111'' (Some ''gid://shopify/Product/71'') ''shopify'' None,
       FindSyncedProduct ''72'',
       GetBunjangProductDetails ''222'',
       UpdateOrder ''gid://shopify/Order/1001'' [''BunjangOrder-1001_Error'', ''PID-222-NotFound''] [] None,
       FindSyncedProduct ''73'',
       GetBunjangProductDetails ''333'',
       CreateBunjangOrderV2 (Payload \<lparr>sl_id = ''L3'', sl_product_id = ''73''\<rparr> ''333'' selling_details)
         (Inr (Some ''C333'')),
       UpdateOrder ''gid://shopify/Order/1001'' [''BunjangOrder-C333'', ''PID-333-Success''] [] None,
       GetBunjangPointBalance,
       SoldStatusCall ''333'' (Some ''gid://shopify/Product/73'') ''shopify'' None,
       UpdateOrder ''gid://shopify/Order/1001''
         [''BunjangOrderPlaced'', ''BunjangOrder-1001'', ''Orders-2'']
         [(''order_ids'', ''[\"C111\",\"C333\"]''),
          (''order_created_at'', ''2024-01-01T00:00:00.000Z''),
          (''order_count'', ''2'')] None])
   \<and> fst (processShopifyOrderForBunjang unparsed_marker_env three_item_order [])
       = Inr \<lparr>res_success = True, res_alreadyProcessed = False,
              res_bunjangOrderIds = [''B111'', ''B333''], res_message = []\<rparr>
   \<and> hd (snd (processShopifyOrderForBunjang unparsed_marker_env three_item_order []))
       = GetOrderMetafield ''gid://shopify/Order/1001'' (Some ''B111'')
   \<and> created_in (snd (processShopifyOrderForBunjang unparsed_marker_env three_item_order []))
       = [''B111'', ''B333'']"
  by (simp add: orch_eval partial_env_def marked_env_def unread_marker_env_def
        unparsed_marker_env_def digitChar_def)

text \<open>
  Claim C2, amended. For an order that passes the validity check: if the request that
  reads the marker does not throw and the storefront holds the
  \<open>bunjang\<close>/\<open>order_ids\<close> metafield with a non-empty value that \<open>JSON.parse\<close>
  accepts, the orchestrator returns \<open>success\<close> and \<open>alreadyProcessed\<close> with the
  parsed ids, and its only collaborator call is that read: no line item is looked up
  and no downstream order is created. And a run that returns \<open>success\<close> without
  having been short-circuited has ended with the storefront accepting the update that
  writes the created ids to that metafield. So a re-delivery after successful
  processing creates no second downstream order as long as the read of the marker
  succeeds.
\<close>

theorem marker_short_circuit:
  "(so_id ord \<noteq> [] \<and> so_gid ord \<noteq> [] \<and> so_line_items ord \<noteq> [] \<and>
    oe_metafieldQueryThrows env h (so_gid ord) = None \<and>
    oe_orderIdsMetafield env h (so_gid ord) = Some v \<and> v \<noteq> [] \<and>
    oe_JSON_parse env v = Some ids
    \<longrightarrow>
      processShopifyOrderForBunjang env ord h
        = (Inr \<lparr>res_success = True, res_alreadyProcessed = True,
                res_bunjangOrderIds = ids, res_message = []\<rparr>,
           h @ [GetOrderMetafield (so_gid ord) (Some v)]))
   \<and> (processShopifyOrderForBunjang env ord h = (Inr res, h') \<and>
       res_success res \<and> \<not> res_alreadyProcessed res
       \<longrightarrow>
         (\<exists>tags other. h' \<noteq> [] \<and>
            last h' = UpdateOrder (so_gid ord) tags
              ((''order_ids'', oe_JSON_stringify env (res_bunjangOrderIds res)) # other) None))"
proof (intro conjI impI)
  assume "so_id ord \<noteq> [] \<and> so_gid ord \<noteq> [] \<and> so_line_items ord \<noteq> [] \<and>
    oe_metafieldQueryThrows env h (so_gid ord) = None \<and>
    oe_orderIdsMetafield env h (so_gid ord) = Some v \<and> v \<noteq> [] \<and>
    oe_JSON_parse env v = Some ids"
  then show "processShopifyOrderForBunjang env ord h
        = (Inr \<lparr>res_success = True, res_alreadyProcessed = True,
                res_bunjangOrderIds = ids, res_message = []\<rparr>,
           h @ [GetOrderMetafield (so_gid ord) (Some v)])"
    by (simp add: processShopifyOrderForBunjang_def getOrderMetafield_def existingOrderIds_def
          Let_def)
next
  assume "processShopifyOrderForBunjang env ord h = (Inr res, h') \<and>
       res_success res \<and> \<not> res_alreadyProcessed res"
  then show "\<exists>tags other. h' \<noteq> [] \<and>
            last h' = UpdateOrder (so_gid ord) tags
              ((''order_ids'', oe_JSON_stringify env (res_bunjangOrderIds res)) # other) None"
    using processShopifyOrder_marker_written[of env ord h res h'] by simp
qed

theorem marker_short_circuit_witness:
  "processShopifyOrderForBunjang marked_env three_item_order []
   = (Inr \<lparr>res_success = True, res_alreadyProcessed = True,
           res_bunjangOrderIds = [''B111'', ''B333''], res_message = []\<rparr>,
      [GetOrderMetafield ''gid://shopify/Order/1001'' (Some ''[\"B111\",\"B333\"]'')])
   \<and> (\<exists>tags other.
        last (snd (processShopifyOrderForBunjang partial_env three_item_order []))
          = UpdateOrder ''gid://shopify/Order/1001'' tags
              ((''order_ids'', ''[\"B111\",\"B333\"]'') # other) None)"
proof -
  have o: "so_id three_item_order \<noteq> []" "so_gid three_item_order \<noteq> []"
      "so_line_items three_item_order \<noteq> []"
      "so_gid three_item_order = ''gid://shopify/Order/1001''"
    by (simp_all add: three_item_order_def)
  have e: "oe_metafieldQueryThrows marked_env [] (so_gid three_item_order) = None"
      "oe_orderIdsMetafield marked_env [] (so_gid three_item_order) = Some ''[\"B111\",\"B333\"]''"
      "oe_JSON_parse marked_env ''[\"B111\",\"B333\"]'' = Some [''B111'', ''B333'']"
    by (simp_all add: marked_env_def partial_env_def)
  have n: "''[\"B111\",\"B333\"]'' \<noteq> []" by simp
  have s: "oe_JSON_stringify partial_env [''B111'', ''B333''] = ''[\"B111\",\"B333\"]''"
    by (simp add: partial_env_def sample_stringify_def)
  from marker_short_circuit[where env = marked_env and ord = three_item_order and h = "[]"
      and v = "''[\"B111\",\"B333\"]''" and ids = "[''B111'', ''B333'']"] o(1-3) e n
  have 1: "processShopifyOrderForBunjang marked_env three_item_order []
   = (Inr \<lparr>res_success = True, res_alreadyProcessed = True,
           res_bunjangOrderIds = [''B111'', ''B333''], res_message = []\<rparr>,
      [GetOrderMetafield ''gid://shopify/Order/1001'' (Some ''[\"B111\",\"B333\"]'')])"
    unfolding o(4) by simp
  from marker_short_circuit[where env = partial_env and ord = three_item_order and h = "[]"
      and res = "\<lparr>res_success = True, res_alreadyProcessed = False,
           res_bunjangOrderIds = [''B111'', ''B333''], res_message = []\<rparr>"
      and h' = "snd (processShopifyOrderForBunjang partial_env three_item_order [])"]
    sample_partial_run
  have 2: "\<exists>tags other.
        last (snd (processShopifyOrderForBunjang partial_env three_item_order []))
          = UpdateOrder ''gid://shopify/Order/1001'' tags
              ((''order_ids'', ''[\"B111\",\"B333\"]'') # other) None"
    unfolding o(4) s by simp
  from 1 2 show ?thesis by simp
qed

text \<open>
  Claim C4 as stated fails. When the storefront refuses the order updates, the item
  whose source listing is not found gets neither the \<open>NotFound\<close> tag nor the
  \<open>Exception\<close> tag of the \<open>catch\<close>, whose error leaves the loop: the run throws
  and the remaining line item is never looked at. And an order that carries the marker
  is answered \<open>success = true\<close> by a run that creates no downstream order.
\<close>

theorem notfound_item_counterexample:
  "processShopifyOrderForBunjang refusing_env notfound_first_order []
   = (Inl (JsError ''ExternalServiceError'' (Some ''SHOPIFY_ORDER_UPDATE_ERROR'')),
      [GetOrderMetafield ''gid://shopify/Order/1001'' None,
       FindSyncedProduct ''72'',
       GetBunjangProductDetails ''222'',
       UpdateOrder ''gid://shopify/Order/1001'' [''BunjangOrder-1001_Error'', ''PID-222-NotFound''] []
         (Some (JsError ''ExternalServiceError'' (Some ''SHOPIFY_ORDER_UPDATE_ERROR''))),
       UpdateOrder ''gid://shopify/Order/1001'' [''BunjangOrder-1001_Error'', ''PID-222-Exception''] []
         (Some (JsError ''ExternalServiceError'' (Some ''SHOPIFY_ORDER_UPDATE_ERROR'')))])
   \<and> res_success (projr (fst (processShopifyOrderForBunjang marked_env three_item_order [])))
   \<and> created_in (snd (processShopifyOrderForBunjang marked_env three_item_order [])) = []"
  by (simp add: orch_eval partial_env_def marked_env_def refusing_env_def digitChar_def)

text \<open>
  Claim C4, amended. Let a line item resolve to the source listing \<open>pid\<close>, let the
  detail of that listing be not found, and let the storefront accept the update that
  sets the tags \<open><order>_Error\<close> and \<open>PID-<pid>-NotFound\<close>. Then the loop over
  \<open>item # items\<close> goes on with \<open>items\<close> from a state whose log has gained the
  detail request and that update, and that differs from the state before the item by a
  quiet step: no downstream order was created for the item. And whenever the
  orchestrator returns a result, \<open>success\<close> is true if and only if the marker
  short-circuit answered or a downstream order was created by one of the calls of this
  run; the ids of a successful run that was not short-circuited are the ids created.
\<close>

theorem notfound_item_is_tagged_and_skipped:
  "(resolveSyncedProduct env (sl_product_id item) st = (Inr (Some (pid, gid)), st') \<and>
    pid \<noteq> [] \<and>
    oe_getBunjangProductDetails env (os_log st') pid = Inr None \<and>
    oe_updateOrder env (os_log st' @ [GetBunjangProductDetails pid]) (so_gid ord)
      [bunjangOrderIdentifier env ord @ ''_Error'', ''PID-'' @ pid @ ''-NotFound''] [] = None
    \<longrightarrow>
      processLineItems env ord (item # items) st =
        processLineItems env ord items
          (st'\<lparr>os_log := os_log st' @
                   [GetBunjangProductDetails pid,
                    UpdateOrder (so_gid ord)
                      [bunjangOrderIdentifier env ord @ ''_Error'', ''PID-'' @ pid @ ''-NotFound'']
                      [] None]\<rparr>)
      \<and> quiet st
          (st'\<lparr>os_log := os_log st' @
                   [GetBunjangProductDetails pid,
                    UpdateOrder (so_gid ord)
                      [bunjangOrderIdentifier env ord @ ''_Error'', ''PID-'' @ pid @ ''-NotFound'']
                      [] None]\<rparr>))
   \<and> (processShopifyOrderForBunjang env ord h = (Inr res, h') \<longrightarrow>
        (\<exists>new. h' = h @ new \<and>
           (res_success res \<longleftrightarrow> (res_alreadyProcessed res \<or> created_in new \<noteq> [])) \<and>
           (res_success res \<and> \<not> res_alreadyProcessed res \<longrightarrow>
              res_bunjangOrderIds res = created_in new)))"
proof (intro conjI impI)
  assume a: "resolveSyncedProduct env (sl_product_id item) st = (Inr (Some (pid, gid)), st') \<and>
    pid \<noteq> [] \<and>
    oe_getBunjangProductDetails env (os_log st') pid = Inr None \<and>
    oe_updateOrder env (os_log st' @ [GetBunjangProductDetails pid]) (so_gid ord)
      [bunjangOrderIdentifier env ord @ ''_Error'', ''PID-'' @ pid @ ''-NotFound''] [] = None"
  let ?st3 = "st'\<lparr>os_log := os_log st' @
                   [GetBunjangProductDetails pid,
                    UpdateOrder (so_gid ord)
                      [bunjangOrderIdentifier env ord @ ''_Error'', ''PID-'' @ pid @ ''-NotFound'']
                      [] None]\<rparr>"
  from a have p: "processResolved env ord item pid gid st' = (Inr (), ?st3)"
    by (simp add: processResolved_def tryCatch_def updateOrder_def record_event_def Let_def)
  with a have "processLineItem env ord item st = (Inr (), ?st3)"
    by (simp add: processLineItem_def bindR_def)
  then show "processLineItems env ord (item # items) st = processLineItems env ord items ?st3"
    by (simp add: bindR_def)
  from a have "quiet st st'" by (auto dest: resolveSyncedProduct_quiet)
  moreover have "quiet st' ?st3"
    unfolding quiet_def
    by (intro exI[of _ "[GetBunjangProductDetails pid,
                    UpdateOrder (so_gid ord)
                      [bunjangOrderIdentifier env ord @ ''_Error'', ''PID-'' @ pid @ ''-NotFound'']
                      [] None]"]) simp
  ultimately show "quiet st ?st3" by (rule quiet_trans)
next
  assume "processShopifyOrderForBunjang env ord h = (Inr res, h')"
  then show "\<exists>new. h' = h @ new \<and>
           (res_success res \<longleftrightarrow> (res_alreadyProcessed res \<or> created_in new \<noteq> [])) \<and>
           (res_success res \<and> \<not> res_alreadyProcessed res \<longrightarrow>
              res_bunjangOrderIds res = created_in new)"
    by (rule processShopifyOrder_result)
qed

theorem notfound_item_is_tagged_and_skipped_witness:
  "processLineItems partial_env three_item_order
       [\<lparr>sl_id = ''L2'', sl_product_id = ''72''\<rparr>, \<lparr>sl_id = ''L3'', sl_product_id = ''73''\<rparr>]
       \<lparr>os_log = [], createdBunjangOrderIds = [], bunjangOrderSuccessfullyCreatedOverall = False\<rparr>
   = processLineItems partial_env three_item_order
       [\<lparr>sl_id = ''L3'', sl_product_id = ''73''\<rparr>]
       \<lparr>os_log = [FindSyncedProduct ''72'',
                  GetBunjangProductDetails ''222'',
                  UpdateOrder ''gid://shopify/Order/1001''
                    [''BunjangOrder-1001_Error'', ''PID-222-NotFound''] [] None],
        createdBunjangOrderIds = [], bunjangOrderSuccessfullyCreatedOverall = False\<rparr>
   \<and> created_in
       [GetOrderMetafield ''gid://shopify/Order/1001'' None,
        FindSyncedProduct ''71'',
        GetBunjangProductDetails ''111'',
        CreateBunjangOrderV2 (Payload \<lparr>sl_id = ''L1'', sl_product_id = ''71''\<rparr> ''111'' selling_details)
          (Inr (Some ''B111'')),
        UpdateOrder ''gid://shopify/Order/1001'' [''BunjangOrder-B111'', ''PID-111-Success''] [] None,
        GetBunjangPointBalance,
        SoldStatusCall ''111'' (Some ''gid://shopify/Product/71'') ''shopify'' None,
        FindSyncedProduct ''72'',
        GetBunjangProductDetails ''222'',
        UpdateOrder ''gid://shopify/Order/1001'' [''BunjangOrder-1001_Error'', ''PID-222-NotFound''] [] None,
        FindSyncedProduct ''73'',
        GetBunjangProductDetails ''333'',
        CreateBunjangOrderV2 (Payload \<lparr>sl_id = ''L3'', sl_product_id = ''73''\<rparr> ''333'' selling_details)
          (Inr (Some ''B333'')),
        UpdateOrder ''gid://shopify/Order/1001'' [''BunjangOrder-B333'', ''PID-333-Success''] [] None,
        GetBunjangPointBalance,
        SoldStatusCall ''333'' (Some ''gid://shopify/Product/73'') ''shopify'' None,
        UpdateOrder ''gid://shopify/Order/1001''
          [''BunjangOrderPlaced'', ''BunjangOrder-1001'', ''Orders-2'']
          [(''order_ids'', ''[\"B111\",\"B333\"]''),
           (''order_created_at'', ''2024-01-01T00:00:00.000Z''),
           (''order_count'', ''2'')] None]
     = [''B111'', ''B333'']"
proof -
  let ?st = "\<lparr>os_log = [], createdBunjangOrderIds = [],
               bunjangOrderSuccessfullyCreatedOverall = False\<rparr>"
  let ?st1 = "\<lparr>os_log = [FindSyncedProduct ''72''], createdBunjangOrderIds = [],
                bunjangOrderSuccessfullyCreatedOverall = False\<rparr>"
  have a: "resolveSyncedProduct partial_env (sl_product_id \<lparr>sl_id = ''L2'', sl_product_id = ''72''\<rparr>) ?st
             = (Inr (Some (''222'', Some ''gid://shopify/Product/72'')), ?st1)"
    by (simp add: resolveSyncedProduct_def record_event_def Let_def partial_env_def)
  have b: "''222'' \<noteq> []" by simp
  have c: "oe_getBunjangProductDetails partial_env (os_log ?st1) ''222'' = Inr None"
    by (simp add: partial_env_def)
  have d: "oe_updateOrder partial_env (os_log ?st1 @ [GetBunjangProductDetails ''222''])
             (so_gid three_item_order)
             [bunjangOrderIdentifier partial_env three_item_order @ ''_Error'',
              ''PID-'' @ ''222'' @ ''-NotFound''] [] = None"
    by (simp add: partial_env_def)
  have i: "bunjangOrderIdentifier partial_env three_item_order = ''BunjangOrder-1001''"
      "so_gid three_item_order = ''gid://shopify/Order/1001''"
    by (simp_all add: bunjangOrderIdentifier_def partial_env_def three_item_order_def
          js_or_def template_def)
  from notfound_item_is_tagged_and_skipped[where env = partial_env and ord = three_item_order
      and item = "\<lparr>sl_id = ''L2'', sl_product_id = ''72''\<rparr>"
      and items = "[\<lparr>sl_id = ''L3'', sl_product_id = ''73''\<rparr>]"
      and st = ?st and st' = ?st1 and pid = "''222''" and gid = "Some ''gid://shopify/Product/72''"
      and h = "[]"] a b c d sample_partial_run
  show ?thesis
    unfolding i by simp
qed
end
